theory Spec2Isabelle
  imports Complex_Main "HOL-Library.Sublist"
begin

section \<open>JavaScript strings and numbers\<close>

text \<open>
  A JavaScript string is a sequence of UTF-16 code units. The model uses \<open>string\<close>
  (a list of 8-bit characters) and reads a character as the code unit of the same
  number, so it covers the strings whose code units are below 256. Every string
  literal of the sources is of that kind (the Spanish name of Spain has the code
  unit 0xF1 for its fifth letter).
  Numbers are modelled by integers: the sources only compare and subtract integral
  values (clock readings in milliseconds, parsed identifiers), which a double
  represents exactly below \<open>2 ^ 53\<close>; \<open>NaN\<close> is \<open>None\<close>.
\<close>

definition toLowerCaseChar :: "char \<Rightarrow> char" where
  "toLowerCaseChar c =
     (let n = (of_char c :: nat) in
      if (65 \<le> n \<and> n \<le> 90) \<or> (192 \<le> n \<and> n \<le> 214) \<or> (216 \<le> n \<and> n \<le> 222)
      then char_of (n + 32) else c)"

definition toLowerCase :: "string \<Rightarrow> string" where
  "toLowerCase s = map toLowerCaseChar s"

text \<open>\<open>hay.includes(needle)\<close>: some suffix of \<open>hay\<close> starts with \<open>needle\<close>.\<close>

fun str_includes :: "string \<Rightarrow> string \<Rightarrow> bool" where
  "str_includes [] needle = (needle = [])"
| "str_includes (c # cs) needle = (prefix needle (c # cs) \<or> str_includes cs needle)"

definition startsWith :: "string \<Rightarrow> string \<Rightarrow> bool" where
  "startsWith s p = prefix p s"

text \<open>\<open>s.replace(pat, rep)\<close> with a string pattern replaces the first occurrence only.\<close>

fun str_replace :: "string \<Rightarrow> string \<Rightarrow> string \<Rightarrow> string" where
  "str_replace [] pat rep = (if pat = [] then rep else [])"
| "str_replace (c # cs) pat rep =
     (if prefix pat (c # cs) then rep @ drop (length pat) (c # cs)
      else c # str_replace cs pat rep)"

definition isStrWhiteSpaceChar :: "char \<Rightarrow> bool" where
  "isStrWhiteSpaceChar c =
     (c \<in> set [CHR 0x09, CHR 0x0A, CHR 0x0B, CHR 0x0C, CHR 0x0D, CHR 0x20, CHR 0xA0])"

definition digitValue :: "nat \<Rightarrow> char \<Rightarrow> nat option" where
  "digitValue R c =
     (let n = (of_char c :: nat);
          v = (if 48 \<le> n \<and> n \<le> 57 then Some (n - 48)
               else if 97 \<le> n \<and> n \<le> 122 then Some (n - 87)
               else if 65 \<le> n \<and> n \<le> 90 then Some (n - 55)
               else None)
      in case v of None \<Rightarrow> None | Some d \<Rightarrow> if d < R then Some d else None)"

definition isRadixDigit :: "nat \<Rightarrow> char \<Rightarrow> bool" where
  "isRadixDigit R c = (digitValue R c \<noteq> None)"

definition digitsValue :: "nat \<Rightarrow> string \<Rightarrow> nat" where
  "digitsValue R Z =
     foldl (\<lambda>a c. case digitValue R c of None \<Rightarrow> a | Some d \<Rightarrow> a * R + d) 0 Z"

text \<open>
  \<open>parseInt(inputString)\<close> without a radix: leading white space is skipped, a sign
  is read, \<open>0x\<close> or \<open>0X\<close> selects radix 16, and the longest prefix of digits is the
  value; no digit at all gives \<open>NaN\<close>.
\<close>

definition parseInt :: "string \<Rightarrow> int option" where
  "parseInt inputString =
     (let S0 = dropWhile isStrWhiteSpaceChar inputString;
          sign = (case S0 of c # _ \<Rightarrow> if c = CHR ''-'' then (- 1 :: int) else 1 | [] \<Rightarrow> 1);
          S1 = (case S0 of c # cs \<Rightarrow> if c = CHR ''+'' \<or> c = CHR ''-'' then cs else S0
                | [] \<Rightarrow> S0);
          hex = (prefix ''0x'' S1 \<or> prefix ''0X'' S1);
          R = (if hex then 16 else 10);
          S2 = (if hex then drop 2 S1 else S1);
          Z = takeWhile (isRadixDigit R) S2
      in if Z = [] then None else Some (sign * int (digitsValue R Z)))"

text \<open>\<open>n.toString()\<close> for an integral number: its decimal numeral.\<close>

fun decimalDigits :: "nat \<Rightarrow> string" where
  "decimalDigits n =
     (if n < 10 then [char_of (48 + n)]
      else decimalDigits (n div 10) @ [char_of (48 + n mod 10)])"

declare decimalDigits.simps [simp del]

definition numberToString :: "int \<Rightarrow> string" where
  "numberToString n =
     (if n < 0 then CHR ''-'' # decimalDigits (nat (- n)) else decimalDigits (nat n))"

text \<open>
  Comparisons with a parsed number: every comparison with \<open>NaN\<close> is false.
\<close>

definition num_ge :: "int option \<Rightarrow> int \<Rightarrow> bool" where
  "num_ge x b = (case x of None \<Rightarrow> False | Some n \<Rightarrow> b \<le> n)"

definition num_lt :: "int option \<Rightarrow> int \<Rightarrow> bool" where
  "num_lt x b = (case x of None \<Rightarrow> False | Some n \<Rightarrow> n < b)"

section \<open>Recipes\<close>

text \<open>The interface \<open>Recipe\<close> of \<open>RecipePanel.tsx\<close>; an optional field is an option.\<close>

record recipe =
  id' :: string
  title :: string
  country :: string
  region :: string
  prepTime :: string
  image' :: string
  isFavorite :: bool
  description :: string
  coordinates :: "real \<times> real"
  ingredients :: "string list option"
  instructions :: "string list option"
  dietaryTags :: "string list option"

section \<open>The hook \<open>useRecipes\<close>: toggling a favourite\<close>

definition toggleFavorite :: "string \<Rightarrow> recipe list \<Rightarrow> recipe list" where
  "toggleFavorite ident prevRecipes =
     map (\<lambda>recipe. if id' recipe = ident
                    then recipe\<lparr>isFavorite := \<not> isFavorite recipe\<rparr>
                    else recipe) prevRecipes"

section \<open>The derived recipe list of the home component\<close>

record Region =
  region_id :: string
  name :: string
  region_description :: string
  region_coordinates :: "real \<times> real"

datatype view = Explore | Search | Favorites

text \<open>
  The object literal \<open>countryToCuisine\<close> of the filter, as the association list of
  its own properties. A lookup \<open>countryToCuisine[k]\<close> is \<open>map_of\<close>; the names every
  object inherits (\<open>constructor\<close>, \<open>toString\<close>, ...) are not scope names and are
  outside the model.
\<close>

definition countryToCuisine :: "(string \<times> string) list" where
  "countryToCuisine =
     [(''Italy'', ''Italian''),
      (''Italia'', ''Italian''),
      (''France'', ''French''),
      (''Espa'' @ [CHR 0xF1] @ ''a'', ''Spanish''),
      (''Spain'', ''Spanish''),
      (''Greece'', ''Greek''),
      (''Germany'', ''German''),
      (''United Kingdom'', ''British''),
      (''Great Britain'', ''British''),
      (''Russia'', ''Russian''),
      (''Portugal'', ''Portuguese''),
      (''China'', ''Chinese''),
      (''Japan'', ''Japanese''),
      (''Thailand'', ''Thai''),
      (''India'', ''Indian''),
      (''Korea'', ''Korean''),
      (''Korea, Republic of'', ''Korean''),
      (''Vietnam'', ''Vietnamese''),
      (''USA'', ''American''),
      (''United States'', ''American''),
      (''United States of America'', ''American''),
      (''Mexico'', ''Mexican''),
      (''Brasil'', ''Brazilian''),
      (''Brazil'', ''Brazilian''),
      (''Argentina'', ''Argentine''),
      (''Lebanon'', ''Middle Eastern''),
      (''Turkey'', ''Middle Eastern''),
      (''Iran'', ''Middle Eastern'')]"

definition continents :: "string list" where
  "continents =
     [''North America'', ''South America'', ''Europe'', ''Asia'', ''Africa'',
      ''Australia'', ''Oceania'']"

text \<open>The chain of identifier ranges, in the order of the source.\<close>

definition idRangeMatch :: "string \<Rightarrow> int option \<Rightarrow> bool" where
  "idRangeMatch targetCuisine idNum =
     (if targetCuisine = ''Italian'' \<and> num_ge idNum 100 \<and> num_lt idNum 200 then True
      else if targetCuisine = ''Mexican'' \<and> num_ge idNum 200 \<and> num_lt idNum 300 then True
      else if targetCuisine = ''Chinese'' \<and> num_ge idNum 300 \<and> num_lt idNum 400 then True
      else if targetCuisine = ''Indian'' \<and> num_ge idNum 400 \<and> num_lt idNum 500 then True
      else if targetCuisine = ''Japanese'' \<and> num_ge idNum 500 \<and> num_lt idNum 600 then True
      else if targetCuisine = ''Thai'' \<and> num_ge idNum 600 \<and> num_lt idNum 700 then True
      else if targetCuisine = ''French'' \<and> num_ge idNum 700 \<and> num_lt idNum 800 then True
      else if targetCuisine = ''American'' \<and> num_ge idNum 800 \<and> num_lt idNum 900 then True
      else if targetCuisine = ''Spanish'' \<and> num_ge idNum 900 \<and> num_lt idNum 1000 then True
      else if targetCuisine = ''Greek'' \<and> num_ge idNum 1000 \<and> num_lt idNum 1100 then True
      else False)"

text \<open>
  The block \<open>if (activeRegion) { ... }\<close> of the callback of \<open>recipes.filter\<close>: the
  value it returns for the recipe \<open>r\<close>.
\<close>

definition matchesActiveRegion :: "Region \<Rightarrow> recipe \<Rightarrow> bool" where
  "matchesActiveRegion activeRegion r =
     (if name activeRegion \<in> set continents
      then toLowerCase (region r) = toLowerCase (name activeRegion)
      else if toLowerCase (country r) = toLowerCase (name activeRegion) then True
      else if str_includes (toLowerCase (country r)) (toLowerCase (name activeRegion))
              \<or> str_includes (toLowerCase (name activeRegion)) (toLowerCase (country r))
      then True
      else (case map_of countryToCuisine (name activeRegion) of
              None \<Rightarrow> False
            | Some targetCuisine \<Rightarrow>
                if targetCuisine = [] then False
                else if str_includes (toLowerCase (title r)) (toLowerCase targetCuisine)
                        \<or> (description r \<noteq> []
                            \<and> str_includes (toLowerCase (description r))
                                 (toLowerCase targetCuisine))
                then True
                else if startsWith (id' r) ''mock-''
                then idRangeMatch targetCuisine (parseInt (str_replace (id' r) ''mock-'' ''''))
                else False))"

text \<open>The callback of \<open>recipes.filter\<close>, and the derived list \<open>filteredRecipes\<close>.\<close>

definition searchMatch :: "string \<Rightarrow> recipe \<Rightarrow> bool" where
  "searchMatch searchQuery r =
     (let query = toLowerCase searchQuery;
          basicMatch =
            (str_includes (toLowerCase (title r)) query
             \<or> str_includes (toLowerCase (country r)) query
             \<or> str_includes (toLowerCase (region r)) query
             \<or> str_includes (toLowerCase (description r)) query);
          ingredientMatch =
            (case ingredients r of
               None \<Rightarrow> False
             | Some is \<Rightarrow> list_ex (\<lambda>ingredient. str_includes (toLowerCase ingredient) query) is)
      in basicMatch \<or> ingredientMatch)"

definition keepRecipe :: "view \<Rightarrow> string \<Rightarrow> Region option \<Rightarrow> recipe \<Rightarrow> bool" where
  "keepRecipe view searchQuery activeRegion r =
     (if view = Favorites then isFavorite r
      else if searchQuery \<noteq> [] then searchMatch searchQuery r
      else (case activeRegion of
              Some a \<Rightarrow> matchesActiveRegion a r
            | None \<Rightarrow> True))"

definition filteredRecipes ::
    "view \<Rightarrow> string \<Rightarrow> Region option \<Rightarrow> recipe list \<Rightarrow> recipe list" where
  "filteredRecipes view searchQuery activeRegion recipes =
     filter (keepRecipe view searchQuery activeRegion) recipes"

section \<open>Objects used as dictionaries, and the browser's storage\<close>

text \<open>
  An object used as a dictionary is the association list of its own properties in
  the order \<open>Object.keys\<close> enumerates them: the keys that are array indices first,
  in ascending numeric order, then the other keys in the order of their creation.
  An assignment to an existing key keeps its place. Keys inherited from
  \<open>Object.prototype\<close> are outside the model.
\<close>

definition isArrayIndex :: "string \<Rightarrow> bool" where
  "isArrayIndex k =
     (k \<noteq> [] \<and> list_all (isRadixDigit 10) k \<and> (if prefix ''0'' k then k = ''0'' else True)
      \<and> digitsValue 10 k < 2 ^ 32 - 1)"

definition comesBefore :: "string \<Rightarrow> string \<Rightarrow> bool" where
  "comesBefore k' k = (isArrayIndex k' \<and> digitsValue 10 k' < digitsValue 10 k)"

definition obj_insert :: "string \<Rightarrow> 'v \<Rightarrow> (string \<times> 'v) list \<Rightarrow> (string \<times> 'v) list" where
  "obj_insert k v obj =
     (if isArrayIndex k
      then takeWhile (\<lambda>p. comesBefore (fst p) k) obj @ [(k, v)]
           @ dropWhile (\<lambda>p. comesBefore (fst p) k) obj
      else obj @ [(k, v)])"

fun obj_update :: "string \<Rightarrow> 'v \<Rightarrow> (string \<times> 'v) list \<Rightarrow> (string \<times> 'v) list" where
  "obj_update k v [] = []"
| "obj_update k v (p # ps) = (if fst p = k then (k, v) # ps else p # obj_update k v ps)"

definition obj_set :: "string \<Rightarrow> 'v \<Rightarrow> (string \<times> 'v) list \<Rightarrow> (string \<times> 'v) list" where
  "obj_set k v obj =
     (case map_of obj k of None \<Rightarrow> obj_insert k v obj | Some _ \<Rightarrow> obj_update k v obj)"

text \<open>
  \<open>localStorage\<close> maps keys to texts. Reads and writes of the storage succeed in the
  model (a browser may refuse them; \<open>saveToLocalStorage\<close> swallows such a failure).
\<close>

type_synonym storage = "string \<rightharpoonup> string"

definition getItem :: "storage \<Rightarrow> string \<Rightarrow> string option" where
  "getItem st k = st k"

definition setItem :: "string \<Rightarrow> string \<Rightarrow> storage \<Rightarrow> storage" where
  "setItem k v st = st(k \<mapsto> v)"

definition removeItem :: "string \<Rightarrow> storage \<Rightarrow> storage" where
  "removeItem k st = st(k := None)"

text \<open>\<open>x || d\<close> for a text that may be \<open>null\<close>: \<open>null\<close> and the empty text are falsy.\<close>

definition orDefault :: "string option \<Rightarrow> string \<Rightarrow> string" where
  "orDefault x d = (case x of None \<Rightarrow> d | Some t \<Rightarrow> if t = [] then d else t)"

text \<open>
  \<open>JSON.stringify\<close> and \<open>JSON.parse\<close> belong to the language, not to the repository:
  they are a parameter of the model, at the two types the cache uses them at (the
  list of cuisine names, a sequence of recipes). A parse is \<open>None\<close> when
  \<open>JSON.parse\<close> throws. Values of other shapes than the declared types
  \<open>string[]\<close> and \<open>Recipe[]\<close> are outside the model.
\<close>

record json =
  stringifyStrings :: "string list \<Rightarrow> string"
  parseStrings :: "string \<Rightarrow> string list option"
  stringifyRecipes :: "recipe list \<Rightarrow> string"
  parseRecipes :: "string \<Rightarrow> recipe list option"

datatype error = SyntaxError | TypeError | Error string

section \<open>The class \<open>RecipeCache\<close>\<close>

definition CACHE_PREFIX :: string where
  "CACHE_PREFIX = ''global-cuisine-''"

definition CACHE_CUISINES :: string where
  "CACHE_CUISINES = CACHE_PREFIX @ ''cuisines''"

definition CACHE_TIMESTAMP :: string where
  "CACHE_TIMESTAMP = CACHE_PREFIX @ ''timestamp''"

definition CACHE_EXPIRY :: int where
  "CACHE_EXPIRY = 24 * 60 * 60 * 1000"

text \<open>
  The state the class works on: its field \<open>inMemoryCache\<close> and the storage of the
  browser. The clock reading \<open>new Date().getTime()\<close> of a call is the argument
  \<open>now\<close>. A method that may throw returns \<open>Inl\<close> of the error and the state it
  leaves behind.
\<close>

record state =
  inMemoryCache :: "(string \<times> recipe list) list"
  localStorage :: storage

definition hasCuisine :: "state \<Rightarrow> string \<Rightarrow> bool" where
  "hasCuisine s cuisine =
     (case map_of (inMemoryCache s) cuisine of None \<Rightarrow> False | Some rs \<Rightarrow> length rs > 0)"

definition getRecipesForCuisine :: "state \<Rightarrow> string \<Rightarrow> recipe list" where
  "getRecipesForCuisine s cuisine =
     (case map_of (inMemoryCache s) cuisine of None \<Rightarrow> [] | Some rs \<Rightarrow> rs)"

definition getAllRecipes :: "state \<Rightarrow> recipe list" where
  "getAllRecipes s = concat (map snd (inMemoryCache s))"

definition saveToLocalStorage :: "json \<Rightarrow> int \<Rightarrow> state \<Rightarrow> state" where
  "saveToLocalStorage J now s =
     (let st1 = setItem CACHE_TIMESTAMP (numberToString now) (localStorage s);
          cuisines = map fst (inMemoryCache s);
          st2 = setItem CACHE_CUISINES (stringifyStrings J cuisines) st1;
          st3 = foldl (\<lambda>st cuisine.
                   setItem (CACHE_PREFIX @ cuisine)
                     (case map_of (inMemoryCache s) cuisine of
                        Some rs \<Rightarrow> stringifyRecipes J rs
                      | None \<Rightarrow> ''undefined'') st) st2 cuisines
      in s\<lparr>localStorage := st3\<rparr>)"

definition addRecipes :: "json \<Rightarrow> int \<Rightarrow> string \<Rightarrow> recipe list \<Rightarrow> state \<Rightarrow> state" where
  "addRecipes J now cuisine recipes s =
     saveToLocalStorage J now (s\<lparr>inMemoryCache := obj_set cuisine recipes (inMemoryCache s)\<rparr>)"

definition clearCache :: "json \<Rightarrow> state \<Rightarrow> (error \<times> state) + state" where
  "clearCache J s =
     (let s1 = s\<lparr>inMemoryCache := []\<rparr> in
      case parseStrings J (orDefault (getItem (localStorage s1) CACHE_CUISINES) ''[]'') of
        None \<Rightarrow> Inl (SyntaxError, s1)
      | Some cuisines \<Rightarrow>
          let st1 = foldl (\<lambda>st cuisine. removeItem (CACHE_PREFIX @ cuisine) st)
                      (localStorage s1) cuisines;
              st2 = removeItem CACHE_CUISINES st1;
              st3 = removeItem CACHE_TIMESTAMP st2
          in Inr (s1\<lparr>localStorage := st3\<rparr>))"

text \<open>The loop \<open>cuisines.forEach\<close> of \<open>loadFromLocalStorage\<close>; a parse that throws ends it.\<close>

fun loadCuisines :: "json \<Rightarrow> string list \<Rightarrow> state \<Rightarrow> (error \<times> state) + state" where
  "loadCuisines J [] s = Inr s"
| "loadCuisines J (cuisine # rest) s =
     (case getItem (localStorage s) (CACHE_PREFIX @ cuisine) of
        None \<Rightarrow> loadCuisines J rest s
      | Some cachedData \<Rightarrow>
          if cachedData = [] then loadCuisines J rest s
          else (case parseRecipes J cachedData of
                  None \<Rightarrow> Inl (SyntaxError, s)
                | Some rs \<Rightarrow>
                    loadCuisines J rest
                      (s\<lparr>inMemoryCache := obj_set cuisine rs (inMemoryCache s)\<rparr>)))"

text \<open>The condition \<open>timestamp && now - parseInt(timestamp) < CACHE_EXPIRY\<close>.\<close>

definition cacheIsValid :: "int \<Rightarrow> string option \<Rightarrow> bool" where
  "cacheIsValid now timestamp =
     (case timestamp of
        None \<Rightarrow> False
      | Some t \<Rightarrow>
          if t = [] then False
          else (case parseInt t of None \<Rightarrow> False | Some n \<Rightarrow> now - n < CACHE_EXPIRY))"

text \<open>The \<open>try\<close> block of \<open>loadFromLocalStorage\<close>, then the method with its \<open>catch\<close>.\<close>

definition loadTry :: "json \<Rightarrow> int \<Rightarrow> state \<Rightarrow> (error \<times> state) + state" where
  "loadTry J now s =
     (let timestamp = getItem (localStorage s) CACHE_TIMESTAMP in
      if cacheIsValid now timestamp
      then (case parseStrings J (orDefault (getItem (localStorage s) CACHE_CUISINES) ''[]'') of
              None \<Rightarrow> Inl (SyntaxError, s)
            | Some cuisines \<Rightarrow> loadCuisines J cuisines s)
      else clearCache J s)"

definition loadFromLocalStorage :: "json \<Rightarrow> int \<Rightarrow> state \<Rightarrow> (error \<times> state) + state" where
  "loadFromLocalStorage J now s =
     (case loadTry J now s of
        Inl (e, s') \<Rightarrow> clearCache J s'
      | Inr s' \<Rightarrow> Inr s')"

text \<open>The constructor: a fresh object over the storage as it is found.\<close>

definition newRecipeCache :: "json \<Rightarrow> int \<Rightarrow> storage \<Rightarrow> (error \<times> state) + state" where
  "newRecipeCache J now st =
     loadFromLocalStorage J now \<lparr>inMemoryCache = [], localStorage = st\<rparr>"

section \<open>Retrieval through the cache\<close>

text \<open>
  The two functions of the module \<open>mockData\<close> are collaborators: they are parameters.
  \<open>getMockRecipesForCuisine\<close> is a function from the cuisine to its recipes;
  \<open>getAllMockRecipes()\<close> is the list of the entries of the object it returns, or the
  error it throws. An entry's value need not be an array.

  \<open>getRecipes\<close> returns the recipes, the arguments of the calls it made to
  \<open>getMockRecipesForCuisine\<close>, and the state. A missing or empty \<open>cuisine\<close> is falsy.
\<close>

definition getRecipes ::
    "(string \<Rightarrow> recipe list) \<Rightarrow> json \<Rightarrow> int \<Rightarrow> string option \<Rightarrow> bool \<Rightarrow> state
      \<Rightarrow> recipe list \<times> string list \<times> state" where
  "getRecipes getMockRecipesForCuisine J now cuisine forceRefresh s =
     (case cuisine of
        None \<Rightarrow> (getAllRecipes s, [], s)
      | Some c \<Rightarrow>
          if c = [] then (getAllRecipes s, [], s)
          else if hasCuisine s c \<and> \<not> forceRefresh then (getRecipesForCuisine s c, [], s)
          else (let mockRecipes = getMockRecipesForCuisine c in
                if length mockRecipes > 0
                then (mockRecipes, [c], addRecipes J now c mockRecipes s)
                else (mockRecipes, [c], s)))"

datatype mock_value = RecipeArray "recipe list" | NotAnArray

text \<open>What the loop of \<open>initializeCache\<close> writes to the console for an entry.\<close>

datatype log = Added nat string | SkippingNotArray string | AlreadyInCache string

definition defaultCuisines :: "string list" where
  "defaultCuisines =
     [''Italian'', ''Mexican'', ''Chinese'', ''Indian'', ''Japanese'',
      ''Thai'', ''French'', ''Spanish'', ''Greek'', ''American'']"

fun addMockEntries ::
    "json \<Rightarrow> int \<Rightarrow> (string \<times> mock_value) list \<Rightarrow> state \<Rightarrow> log list \<times> state" where
  "addMockEntries J now [] s = ([], s)"
| "addMockEntries J now ((cuisine, recipes) # rest) s =
     (if \<not> hasCuisine s cuisine
      then (case recipes of
              RecipeArray rs \<Rightarrow>
                (let (l, s') = addMockEntries J now rest (addRecipes J now cuisine rs s)
                 in (Added (length rs) cuisine # l, s'))
            | NotAnArray \<Rightarrow>
                (let (l, s') = addMockEntries J now rest s
                 in (SkippingNotArray cuisine # l, s')))
      else (let (l, s') = addMockEntries J now rest s
            in (AlreadyInCache cuisine # l, s')))"

text \<open>
  The \<open>try\<close> block of \<open>initializeCache\<close>, then the function with its \<open>catch\<close>. The
  list \<open>cuisinesToCache\<close> is computed and only printed.
\<close>

definition initializeCacheTry ::
    "(error + (string \<times> mock_value) list) \<Rightarrow> json \<Rightarrow> int \<Rightarrow> string list \<Rightarrow> state
      \<Rightarrow> (error \<times> state) + (bool \<times> log list \<times> state)" where
  "initializeCacheTry getAllMockRecipes J now cuisines s =
     (let cuisinesToCache = (if length cuisines > 0 then cuisines else defaultCuisines) in
      case getAllMockRecipes of
        Inl e \<Rightarrow> Inl (e, s)
      | Inr allMockRecipes \<Rightarrow>
          (let (l, s') = addMockEntries J now allMockRecipes s in Inr (True, l, s')))"

definition initializeCache ::
    "(error + (string \<times> mock_value) list) \<Rightarrow> json \<Rightarrow> int \<Rightarrow> string list \<Rightarrow> state
      \<Rightarrow> bool \<times> log list \<times> state" where
  "initializeCache getAllMockRecipes J now cuisines s =
     (case initializeCacheTry getAllMockRecipes J now cuisines s of
        Inl (e, s') \<Rightarrow> (False, [], s')
      | Inr r \<Rightarrow> r)"

section \<open>States of the store reached with unreserved cuisine names\<close>

text \<open>
  The states reached from a first construction over an empty storage by adding
  recipes, clearing and constructing again over the storage left behind, where no
  cuisine is named \<open>cuisines\<close> or \<open>timestamp\<close>: with the prefix, these two names are
  the keys of the list of cuisines and of the timestamp.
\<close>

inductive reachable :: "json \<Rightarrow> state \<Rightarrow> bool" for J :: json where
  first: "newRecipeCache J now Map.empty = Inr s \<Longrightarrow> reachable J s"
| add: "reachable J s \<Longrightarrow> cuisine \<noteq> ''cuisines'' \<Longrightarrow> cuisine \<noteq> ''timestamp''
         \<Longrightarrow> reachable J (addRecipes J now cuisine recipes s)"
| clear: "reachable J s \<Longrightarrow> clearCache J s = Inr s' \<Longrightarrow> reachable J s'"
| again: "reachable J s \<Longrightarrow> newRecipeCache J now (localStorage s) = Inr s'
         \<Longrightarrow> reachable J s'"

text \<open>
  The persisted store agrees with the memory: the list of cuisines parses, names no
  reserved key, and every entry under the prefix is the timestamp, the list, or the
  non-empty entry of a listed cuisine that the memory holds.
\<close>

definition consistent :: "json \<Rightarrow> state \<Rightarrow> bool" where
  "consistent J s =
     (''cuisines'' \<notin> fst ` set (inMemoryCache s)
      \<and> ''timestamp'' \<notin> fst ` set (inMemoryCache s)
      \<and> (\<exists>cs. parseStrings J (orDefault (getItem (localStorage s) CACHE_CUISINES) ''[]'') = Some cs
               \<and> ''cuisines'' \<notin> set cs \<and> ''timestamp'' \<notin> set cs
               \<and> (\<forall>x. localStorage s (CACHE_PREFIX @ x) \<noteq> None \<longrightarrow>
                      x = ''cuisines'' \<or> x = ''timestamp''
                      \<or> (x \<in> set cs \<and> x \<in> fst ` set (inMemoryCache s)
                          \<and> localStorage s (CACHE_PREFIX @ x) \<noteq> Some []))))"

section \<open>The region resolver as the specification words it\<close>








section \<open>Example data\<close>

definition pizza :: recipe where
  "pizza =
     \<lparr>id' = ''mock-101'', title = ''Margherita Pizza'', country = ''Italy'',
      region = ''Europe'', prepTime = ''30 min'', image' = ''pizza.jpg'',
      isFavorite = False, description = ''A classic from Naples'',
      coordinates = (41.9, 12.5), ingredients = Some [''flour'', ''tomato'', ''mozzarella''],
      instructions = None, dietaryTags = Some [''vegetarian'']\<rparr>"


definition paella :: recipe where
  "paella =
     \<lparr>id' = ''mock-901'', title = ''Paella'', country = ''Spain'',
      region = ''Europe'', prepTime = ''60 min'', image' = ''paella.jpg'',
      isFavorite = False, description = ''Rice with saffron'',
      coordinates = (40.5, -3.7), ingredients = None,
      instructions = None, dietaryTags = None\<rparr>"


definition tacos :: recipe where
  "tacos =
     \<lparr>id' = ''mock-201'', title = ''Tacos al Pastor'', country = ''Mexico'',
      region = ''North America'', prepTime = ''45 min'', image' = ''tacos.jpg'',
      isFavorite = False, description = ''Pork with pineapple'',
      coordinates = (23.6, -102.5), ingredients = Some [''pork'', ''pineapple''],
      instructions = None, dietaryTags = None\<rparr>"


text \<open>
  A fragment of JSON for the examples: the texts of a few values, as a table.
  \<open>stringify\<close> looks a value up and \<open>parse\<close> looks a text up; a text that is not
  in the table does not parse.
\<close>

definition quoted :: "string \<Rightarrow> string" where
  "quoted t = CHR 0x22 # t @ [CHR 0x22]"

definition demoStringTexts :: "(string list \<times> string) list" where
  "demoStringTexts =
     [([], ''[]''),
      ([''Italian''], ''['' @ quoted ''Italian'' @ '']''),
      ([''Italian'', ''Mexican''], ''['' @ quoted ''Italian'' @ '','' @ quoted ''Mexican'' @ '']''),
      ([''Italian'', ''cuisines''], ''['' @ quoted ''Italian'' @ '','' @ quoted ''cuisines'' @ '']'')]"

definition demoRecipeTexts :: "(recipe list \<times> string) list" where
  "demoRecipeTexts =
     [([], ''[]''),
      ([pizza], ''[{'' @ quoted ''id'' @ '':'' @ quoted ''mock-101'' @ ''}]''),
      ([tacos], ''[{'' @ quoted ''id'' @ '':'' @ quoted ''mock-201'' @ ''}]''),
      ([pizza, paella],
         ''[{'' @ quoted ''id'' @ '':'' @ quoted ''mock-101'' @ ''},{''
          @ quoted ''id'' @ '':'' @ quoted ''mock-901'' @ ''}]'')]"

definition demoJSON :: json where
  "demoJSON =
     \<lparr>stringifyStrings = (\<lambda>v. case map_of demoStringTexts v of Some t \<Rightarrow> t | None \<Rightarrow> ''null''),
      parseStrings = (\<lambda>t. map_of (map (\<lambda>(v, t). (t, v)) demoStringTexts) t),
      stringifyRecipes = (\<lambda>v. case map_of demoRecipeTexts v of Some t \<Rightarrow> t | None \<Rightarrow> ''null''),
      parseRecipes = (\<lambda>t. map_of (map (\<lambda>(v, t). (t, v)) demoRecipeTexts) t)\<rparr>"

definition emptyState :: state where
  "emptyState = \<lparr>inMemoryCache = [], localStorage = Map.empty\<rparr>"

definition demoStore :: state where
  "demoStore = \<lparr>inMemoryCache = [(''Italian'', [pizza, paella])], localStorage = Map.empty\<rparr>"

text \<open>Mock data for the examples: two cuisines with one recipe each.\<close>

definition demoMock :: "string \<Rightarrow> recipe list" where
  "demoMock cuisine =
     (if cuisine = ''Italian'' then [pizza] else if cuisine = ''Mexican'' then [tacos] else [])"

definition demoAllMock :: "(string \<times> mock_value) list" where
  "demoAllMock = [(''Italian'', RecipeArray [pizza]), (''Mexican'', RecipeArray [tacos])]"

text \<open>
  A persisted store with a fresh timestamp and two listed cuisines: the entry of the
  first is the text of a sequence of recipes, the entry of the second is not JSON.
\<close>

definition brokenStorage :: storage where
  "brokenStorage =
     [CACHE_TIMESTAMP \<mapsto> ''1000'',
      CACHE_CUISINES \<mapsto> stringifyStrings demoJSON [''Italian'', ''Mexican''],
      CACHE_PREFIX @ ''Italian'' \<mapsto> stringifyRecipes demoJSON [pizza],
      CACHE_PREFIX @ ''Mexican'' \<mapsto> ''[{'' @ quoted ''id'' @ '':'']"

section \<open>Numerals: \<open>parseInt\<close> reads back what \<open>toString\<close> writes\<close>

lemma digitValue_digit: "d < (10::nat) \<Longrightarrow> digitValue 10 (char_of (48 + d)) = Some d"
  by (simp add: digitValue_def Let_def)

lemma isRadixDigit_digit: "d < (10::nat) \<Longrightarrow> isRadixDigit 10 (char_of (48 + d))"
  by (simp add: isRadixDigit_def digitValue_digit)

lemma isRadixDigit_decimalDigits: "list_all (isRadixDigit 10) (decimalDigits n)"
proof (induction n rule: decimalDigits.induct)
  case (1 n)
  show ?case
  proof (cases "n < 10")
    case True
    then show ?thesis by (subst decimalDigits.simps) (simp add: isRadixDigit_digit)
  next
    case False
    with 1 show ?thesis
      by (subst decimalDigits.simps) (simp add: isRadixDigit_digit)
  qed
qed

lemma digitsValue_snoc:
  "digitsValue R (Z @ [c]) = (case digitValue R c of None \<Rightarrow> digitsValue R Z | Some d \<Rightarrow> digitsValue R Z * R + d)"
  by (simp add: digitsValue_def split: option.splits)

lemma digitsValue_decimalDigits: "digitsValue 10 (decimalDigits n) = n"
proof (induction n rule: decimalDigits.induct)
  case (1 n)
  show ?case
  proof (cases "n < 10")
    case True
    then show ?thesis
      by (subst decimalDigits.simps) (simp add: digitsValue_def digitValue_digit)
  next
    case False
    with 1 show ?thesis
      by (subst decimalDigits.simps) (simp add: digitsValue_snoc digitValue_digit)
  qed
qed

lemma decimalDigits_not_Nil: "decimalDigits n \<noteq> []"
  by (subst decimalDigits.simps) simp

text \<open>A decimal numeral starts with a digit, and with the digit 0 only when it is \<open>0\<close>.\<close>

lemma decimalDigits_hd: "\<exists>(d::nat) cs. d < 10 \<and> decimalDigits n = char_of (48 + d) # cs \<and> (d = 0 \<longrightarrow> cs = [])"
proof (induction n rule: decimalDigits.induct)
  case (1 n)
  show ?case
  proof (cases "n < 10")
    case True
    then show ?thesis by (subst decimalDigits.simps) auto
  next
    case False
    then have "n div 10 \<noteq> 0" by simp
    from 1 False obtain d :: nat and cs where d: "d < 10" "decimalDigits (n div 10) = char_of (48 + d) # cs" "d = 0 \<longrightarrow> cs = []"
      by blast
    have "d \<noteq> 0"
    proof
      assume "d = 0"
      with d have "decimalDigits (n div 10) = [char_of (48::nat)]" by simp
      then have "digitsValue 10 (decimalDigits (n div 10)) = 0"
        by (simp add: digitsValue_def digitValue_def)
      with \<open>n div 10 \<noteq> 0\<close> show False by (simp add: digitsValue_decimalDigits)
    qed
    with d False show ?thesis
      by (subst decimalDigits.simps) auto
  qed
qed

lemma takeWhile_all: "list_all P xs \<Longrightarrow> takeWhile P xs = xs"
  by (induction xs) auto

lemma isStrWhiteSpaceChar_code:
  "isStrWhiteSpaceChar c \<Longrightarrow> (of_char c :: nat) \<in> {9, 10, 11, 12, 13, 32, 160}"
  by (auto simp: isStrWhiteSpaceChar_def)

lemma digit_not_space: "d < (10::nat) \<Longrightarrow> \<not> isStrWhiteSpaceChar (char_of (48 + d))"
  by (auto dest!: isStrWhiteSpaceChar_code)

lemma digit_not_sign:
  "d < (10::nat) \<Longrightarrow> char_of (48 + d) \<noteq> CHR ''-'' \<and> char_of (48 + d) \<noteq> CHR ''+''"
  by (auto dest!: arg_cong[where f = "of_char :: char \<Rightarrow> nat"])

lemma digit_not_x:
  "d < (10::nat) \<Longrightarrow> char_of (48 + d) \<noteq> CHR ''x'' \<and> char_of (48 + d) \<noteq> CHR ''X''"
  by (auto dest!: arg_cong[where f = "of_char :: char \<Rightarrow> nat"])

lemma decimalDigits_no_hex: "\<not> prefix ''0x'' (decimalDigits n) \<and> \<not> prefix ''0X'' (decimalDigits n)"
proof -
  obtain d :: nat and cs where d: "d < 10" "decimalDigits n = char_of (48 + d) # cs" "d = 0 \<longrightarrow> cs = []"
    using decimalDigits_hd by blast
  show ?thesis
  proof (cases "d = 0")
    case True
    with d show ?thesis by simp
  next
    case False
    with d(1) have "char_of (48 + d) \<noteq> CHR ''0''"
      by (auto dest!: arg_cong[where f = "of_char :: char \<Rightarrow> nat"])
    with d show ?thesis by simp
  qed
qed

lemma parseInt_digits:
  assumes "list_all (isRadixDigit 10) Z" "Z \<noteq> []" "\<not> prefix ''0x'' Z" "\<not> prefix ''0X'' Z"
  shows "parseInt Z = Some (int (digitsValue 10 Z))"
    and "parseInt (CHR ''-'' # Z) = Some (- int (digitsValue 10 Z))"
proof -
  obtain c cs where Z: "Z = c # cs" using assms(2) by (cases Z) auto
  with assms(1) obtain d where "digitValue 10 c = Some d" by (auto simp: isRadixDigit_def)
  then have c: "\<not> isStrWhiteSpaceChar c" "c \<noteq> CHR ''-''" "c \<noteq> CHR ''+''"
    by (auto simp: digitValue_def Let_def split: if_splits dest!: isStrWhiteSpaceChar_code)
  have tw: "takeWhile (isRadixDigit 10) Z = Z" using assms(1) by (rule takeWhile_all)
  have dw: "dropWhile isStrWhiteSpaceChar Z = Z" using Z c by simp
  have sign: "(case Z of c # x \<Rightarrow> if c = CHR ''-'' then (- 1 :: int) else 1 | [] \<Rightarrow> 1) = 1"
    using Z c by simp
  have S1: "(case Z of c # cs \<Rightarrow> if c = CHR ''+'' \<or> c = CHR ''-'' then cs else Z | [] \<Rightarrow> Z) = Z"
    using Z c by simp
  show "parseInt Z = Some (int (digitsValue 10 Z))"
    unfolding parseInt_def Let_def dw sign S1 using assms(2,3,4) by (simp add: tw)
  show "parseInt (CHR ''-'' # Z) = Some (- int (digitsValue 10 Z))"
    using assms(2,3,4) by (simp add: parseInt_def Let_def isStrWhiteSpaceChar_def tw)
qed

lemma parseInt_numberToString: "parseInt (numberToString n) = Some n"
  using parseInt_digits[OF isRadixDigit_decimalDigits decimalDigits_not_Nil, of "nat (- n)"]
    parseInt_digits[OF isRadixDigit_decimalDigits decimalDigits_not_Nil, of "nat n"]
    decimalDigits_no_hex
  by (simp add: numberToString_def digitsValue_decimalDigits)

lemma numberToString_not_Nil: "numberToString n \<noteq> []"
  by (simp add: numberToString_def decimalDigits_not_Nil)

section \<open>Properties of the dictionary operations\<close>

lemma map_of_obj_update:
  "map_of obj k = Some w \<Longrightarrow> map_of (obj_update k v obj) = (map_of obj)(k \<mapsto> v)"
  by (induction obj) (auto simp: fun_eq_iff)

lemma map_of_insert_middle:
  "map_of (xs @ ys) k = None \<Longrightarrow> map_of (xs @ [(k, v)] @ ys) = (map_of (xs @ ys))(k \<mapsto> v)"
  by (induction xs) (auto simp: fun_eq_iff)

lemma map_of_obj_insert:
  assumes "map_of obj k = None"
  shows "map_of (obj_insert k v obj) = (map_of obj)(k \<mapsto> v)"
proof (cases "isArrayIndex k")
  case True
  have "map_of (takeWhile (\<lambda>p. comesBefore (fst p) k) obj @ [(k, v)]
                 @ dropWhile (\<lambda>p. comesBefore (fst p) k) obj)
          = (map_of (takeWhile (\<lambda>p. comesBefore (fst p) k) obj
                 @ dropWhile (\<lambda>p. comesBefore (fst p) k) obj))(k \<mapsto> v)"
    by (rule map_of_insert_middle) (simp add: assms)
  with True show ?thesis by (simp add: obj_insert_def)
next
  case False
  have "map_of (obj @ [(k, v)] @ []) = (map_of (obj @ []))(k \<mapsto> v)"
    by (rule map_of_insert_middle) (simp add: assms)
  with False show ?thesis by (simp add: obj_insert_def)
qed

lemma map_of_obj_set: "map_of (obj_set k v obj) = (map_of obj)(k \<mapsto> v)"
  by (cases "map_of obj k") (simp_all add: obj_set_def map_of_obj_insert map_of_obj_update)

lemma inMemoryCache_saveToLocalStorage:
  "inMemoryCache (saveToLocalStorage J now s) = inMemoryCache s"
  by (simp add: saveToLocalStorage_def Let_def)

lemma inMemoryCache_addRecipes:
  "inMemoryCache (addRecipes J now c rs s) = obj_set c rs (inMemoryCache s)"
  by (simp add: addRecipes_def inMemoryCache_saveToLocalStorage)

section \<open>The cache store: overwrite semantics\<close>

text \<open>
  Claim C4. For every cache state, every cuisine \<open>C\<close> and every sequence of records
  \<open>R\<close>, after \<open>addRecipes(C, R)\<close> the call \<open>getRecipesForCuisine(C)\<close> returns exactly
  \<open>R\<close>, whatever was stored under \<open>C\<close> before: the sequence is replaced, nothing is
  appended to it.
\<close>

theorem addRecipes_overwrites:
  "getRecipesForCuisine (addRecipes J now C R s) C = R"
  by (simp add: getRecipesForCuisine_def inMemoryCache_addRecipes map_of_obj_set)

section \<open>Toggling a favourite\<close>

text \<open>
  Claim C10. For every list of recipes and every identifier, \<open>toggleFavorite\<close> keeps
  the length and the order of the list: position by position, a recipe whose
  identifier differs is unchanged, and a recipe whose identifier matches has its
  field \<open>isFavorite\<close> negated and every other field unchanged. Toggling twice gives
  the original list back.
\<close>

theorem toggleFavorite_frame:
  "length (toggleFavorite i rs) = length rs
   \<and> list_all2 (\<lambda>r r'. r' = (if id' r = i then r\<lparr>isFavorite := \<not> isFavorite r\<rparr> else r))
        rs (toggleFavorite i rs)
   \<and> list_all2 (\<lambda>r r'. r'\<lparr>isFavorite := isFavorite r\<rparr> = r) rs (toggleFavorite i rs)
   \<and> toggleFavorite i (toggleFavorite i rs) = rs"
  by (induction rs) (simp_all add: toggleFavorite_def)

section \<open>The region resolver\<close>













section \<open>The store and its persisted form\<close>

lemma keys_distinct:
  "CACHE_TIMESTAMP \<noteq> CACHE_CUISINES"
  "CACHE_PREFIX @ ''Italian'' \<noteq> CACHE_TIMESTAMP" "CACHE_PREFIX @ ''Italian'' \<noteq> CACHE_CUISINES"
  by (simp_all add: CACHE_TIMESTAMP_def CACHE_CUISINES_def)

lemma collide: "CACHE_PREFIX @ ''cuisines'' = CACHE_CUISINES" "CACHE_PREFIX @ ''Italian'' \<noteq> CACHE_CUISINES"
  "CACHE_PREFIX @ ''Italian'' \<noteq> CACHE_TIMESTAMP" "CACHE_TIMESTAMP \<noteq> CACHE_CUISINES"
  by (simp_all add: CACHE_CUISINES_def CACHE_TIMESTAMP_def)

lemma obj_set_Italian: "obj_set ''Italian'' rs [] = [(''Italian'', rs)]"
  by (simp add: obj_set_def obj_insert_def isArrayIndex_def isRadixDigit_def digitValue_def)

lemma cacheIsValid_numberToString:
  "cacheIsValid now (Some (numberToString T)) = (now - T < CACHE_EXPIRY)"
  by (simp add: cacheIsValid_def numberToString_not_Nil parseInt_numberToString)

lemma persisted_Italian:
  assumes "inMemoryCache s0 = [(''Italian'', rs)]"
  shows "localStorage (saveToLocalStorage J T s0) =
           (localStorage s0)(CACHE_TIMESTAMP \<mapsto> numberToString T,
              CACHE_CUISINES \<mapsto> stringifyStrings J [''Italian''],
              CACHE_PREFIX @ ''Italian'' \<mapsto> stringifyRecipes J rs)"
  using assms by (simp add: saveToLocalStorage_def Let_def setItem_def)

lemma clearCache_listed:
  assumes "parseStrings J (orDefault (getItem (localStorage s) CACHE_CUISINES) ''[]'') = Some cs"
  shows "clearCache J s =
           Inr \<lparr>inMemoryCache = [],
                localStorage =
                  removeItem CACHE_TIMESTAMP (removeItem CACHE_CUISINES
                    (foldl (\<lambda>st c. removeItem (CACHE_PREFIX @ c) st) (localStorage s) cs))\<rparr>"
  using assms by (simp add: clearCache_def Let_def)

lemma hasCuisine_addRecipes_same:
  "hasCuisine (addRecipes J now C R s) C = (R \<noteq> [])"
  by (simp add: hasCuisine_def inMemoryCache_addRecipes map_of_obj_set)




section \<open>Loading the persisted store\<close>

lemma loadCuisines_skip:
  "loadCuisines J cs s =
     loadCuisines J
       (filter (\<lambda>c. orDefault (getItem (localStorage s) (CACHE_PREFIX @ c)) [] \<noteq> []) cs) s"
proof (induction cs arbitrary: s)
  case Nil
  then show ?case by simp
next
  case (Cons c cs)
  show ?case
  proof (cases "getItem (localStorage s) (CACHE_PREFIX @ c)")
    case None
    with Cons[of s] show ?thesis by (simp add: orDefault_def)
  next
    case (Some t)
    show ?thesis
    proof (cases "t = []")
      case True
      with Some Cons[of s] show ?thesis by (simp add: orDefault_def)
    next
      case False
      show ?thesis
      proof (cases "parseRecipes J t")
        case None
        with Some False show ?thesis by (simp add: orDefault_def)
      next
        case (Some rs)
        with \<open>getItem (localStorage s) (CACHE_PREFIX @ c) = Some t\<close> False
          Cons[of "s\<lparr>inMemoryCache := obj_set c rs (inMemoryCache s)\<rparr>"]
        show ?thesis by (simp add: orDefault_def)
      qed
    qed
  qed
qed

lemma loadCuisines_fails:
  assumes "c \<in> set cs" "getItem (localStorage s) (CACHE_PREFIX @ c) = Some t" "t \<noteq> []"
    "parseRecipes J t = None"
  shows "\<exists>e s'. loadCuisines J cs s = Inl (e, s') \<and> localStorage s' = localStorage s"
  using assms
proof (induction cs arbitrary: s)
  case Nil
  then show ?case by simp
next
  case (Cons d cs)
  show ?case
  proof (cases "d = c")
    case True
    with Cons.prems show ?thesis by simp
  next
    case False
    with Cons.prems have in_cs: "c \<in> set cs" by simp
    show ?thesis
    proof (cases "getItem (localStorage s) (CACHE_PREFIX @ d)")
      case None
      with Cons.IH[OF in_cs Cons.prems(2,3,4)] show ?thesis by simp
    next
      case (Some u)
      show ?thesis
      proof (cases "u = [] \<or> parseRecipes J u = None")
        case True
        with Some Cons.IH[OF in_cs Cons.prems(2,3,4)] show ?thesis by auto
      next
        case False
        then obtain rs where rs: "u \<noteq> []" "parseRecipes J u = Some rs" by auto
        have "\<exists>e s'. loadCuisines J cs (s\<lparr>inMemoryCache := obj_set d rs (inMemoryCache s)\<rparr>) = Inl (e, s')
                \<and> localStorage s' = localStorage (s\<lparr>inMemoryCache := obj_set d rs (inMemoryCache s)\<rparr>)"
          by (rule Cons.IH[OF in_cs]) (use Cons.prems in simp_all)
        with Some rs show ?thesis by simp
      qed
    qed
  qed
qed

lemma load_failure_clears:
  assumes "cacheIsValid now (getItem st CACHE_TIMESTAMP)"
    "parseStrings J (orDefault (getItem st CACHE_CUISINES) ''[]'') = Some cs"
    "c \<in> set cs" "getItem st (CACHE_PREFIX @ c) = Some t" "t \<noteq> []" "parseRecipes J t = None"
  shows "newRecipeCache J now st =
           Inr \<lparr>inMemoryCache = [],
                localStorage =
                  removeItem CACHE_TIMESTAMP (removeItem CACHE_CUISINES
                    (foldl (\<lambda>st c. removeItem (CACHE_PREFIX @ c) st) st cs))\<rparr>"
proof -
  obtain e s' where l: "loadCuisines J cs \<lparr>inMemoryCache = [], localStorage = st\<rparr> = Inl (e, s')"
      "localStorage s' = st"
    using loadCuisines_fails[OF assms(3), of "\<lparr>inMemoryCache = [], localStorage = st\<rparr>" t J] assms(4,5,6)
    by auto
  have "clearCache J s' = Inr \<lparr>inMemoryCache = [],
                localStorage =
                  removeItem CACHE_TIMESTAMP (removeItem CACHE_CUISINES
                    (foldl (\<lambda>st c. removeItem (CACHE_PREFIX @ c) st) st cs))\<rparr>"
    using clearCache_listed[of J s' cs] assms(2) l(2) by simp
  with l assms(1,2) show ?thesis
    by (simp add: newRecipeCache_def loadFromLocalStorage_def loadTry_def)
qed

text \<open>
  Claim C2, as stated: it fails. In the store \<open>brokenStorage\<close> the timestamp is
  fresh, the entry of \<open>Italian\<close> is the text of a sequence of recipes and the entry
  of \<open>Mexican\<close> does not parse. The constructor does not keep the \<open>Italian\<close>
  sequence: the exception of the second entry reaches the \<open>catch\<close> of
  \<open>loadFromLocalStorage\<close>, which clears the memory and the persisted entries, and
  the constructor leaves the empty state.
\<close>

theorem load_skip_and_continue_counterexample:
  "parseRecipes demoJSON (stringifyRecipes demoJSON [pizza]) = Some [pizza]
   \<and> cacheIsValid 2000 (getItem brokenStorage CACHE_TIMESTAMP)
   \<and> newRecipeCache demoJSON 2000 brokenStorage = Inr emptyState
   \<and> \<not> hasCuisine emptyState ''Italian'' \<and> getAllRecipes emptyState = []"
  by (simp add: newRecipeCache_def loadFromLocalStorage_def loadTry_def clearCache_def
     brokenStorage_def cacheIsValid_def getItem_def setItem_def removeItem_def orDefault_def
     demoJSON_def demoStringTexts_def demoRecipeTexts_def quoted_def
     CACHE_TIMESTAMP_def CACHE_CUISINES_def CACHE_PREFIX_def CACHE_EXPIRY_def
     parseInt_def Let_def isStrWhiteSpaceChar_def isRadixDigit_def digitValue_def digitsValue_def
     hasCuisine_def getAllRecipes_def obj_set_def obj_insert_def isArrayIndex_def
     emptyState_def fun_eq_iff)

text \<open>
  Claim C2, amended. During construction with a fresh timestamp, a listed cuisine
  whose entry is missing or empty is skipped and the other cuisines are loaded as
  if it were not listed. A deserialization failure is not skipped: if the entry of
  one listed cuisine does not parse, the constructor ends with an empty memory, and
  the timestamp, the list of cuisines and the entry of every listed cuisine are
  removed from the persisted store.
\<close>

theorem load_failure_clears_store:
  "loadCuisines J cs s =
     loadCuisines J
       (filter (\<lambda>c. orDefault (getItem (localStorage s) (CACHE_PREFIX @ c)) [] \<noteq> []) cs) s
   \<and> (cacheIsValid now (getItem st CACHE_TIMESTAMP)
        \<and> parseStrings J (orDefault (getItem st CACHE_CUISINES) ''[]'') = Some listed
        \<and> c \<in> set listed \<and> getItem st (CACHE_PREFIX @ c) = Some t \<and> t \<noteq> []
        \<and> parseRecipes J t = None
      \<longrightarrow> newRecipeCache J now st =
           Inr \<lparr>inMemoryCache = [],
                localStorage =
                  removeItem CACHE_TIMESTAMP (removeItem CACHE_CUISINES
                    (foldl (\<lambda>st c. removeItem (CACHE_PREFIX @ c) st) st listed))\<rparr>)"
  using loadCuisines_skip[of J cs s] load_failure_clears[of now st J listed c t]
  by blast

section \<open>The round trip through the persisted store\<close>

text \<open>
  Claim C3. A store holding the sequence \<open>[r1, r2]\<close> under \<open>Italian\<close> is persisted
  at the time \<open>T\<close>, and \<open>st\<close> is the storage it leaves. A cache constructed over
  \<open>st\<close> less than 24 hours later (one hour later, for one) holds the same
  mapping, so \<open>getAllRecipes\<close> is \<open>[r1, r2]\<close>. A cache constructed 24 hours later or
  more (25 hours later, for one), or over \<open>st\<close> with the timestamp removed or
  replaced by a text that \<open>parseInt\<close> cannot read, is the cold store: its memory is
  empty, so \<open>getAllRecipes\<close> is \<open>[]\<close>, and the timestamp, the list of cuisines and
  the entry of \<open>Italian\<close> are removed from the storage. The hypotheses on JSON say
  that the two texts written are not empty and parse back to the values written.
\<close>

theorem persistence_round_trip:
  assumes mem: "inMemoryCache s0 = [(''Italian'', [r1, r2])]"
    and pS: "parseStrings J (stringifyStrings J [''Italian'']) = Some [''Italian'']"
    and nS: "stringifyStrings J [''Italian''] \<noteq> []"
    and pR: "parseRecipes J (stringifyRecipes J [r1, r2]) = Some [r1, r2]"
    and nR: "stringifyRecipes J [r1, r2] \<noteq> []"
    and st: "st = localStorage (saveToLocalStorage J T s0)"
    and cold: "cold = \<lparr>inMemoryCache = [],
                  localStorage = st(CACHE_PREFIX @ ''Italian'' := None, CACHE_CUISINES := None,
                                    CACHE_TIMESTAMP := None)\<rparr>"
  shows "(now - T < CACHE_EXPIRY \<longrightarrow>
            newRecipeCache J now st = Inr \<lparr>inMemoryCache = [(''Italian'', [r1, r2])], localStorage = st\<rparr>
            \<and> getAllRecipes \<lparr>inMemoryCache = [(''Italian'', [r1, r2])], localStorage = st\<rparr> = [r1, r2])
       \<and> (CACHE_EXPIRY \<le> now - T \<longrightarrow> newRecipeCache J now st = Inr cold)
       \<and> ((case ts of None \<Rightarrow> True | Some t \<Rightarrow> parseInt t = None) \<longrightarrow>
            newRecipeCache J now (st(CACHE_TIMESTAMP := ts)) = Inr cold)
       \<and> getAllRecipes cold = []
       \<and> localStorage cold CACHE_TIMESTAMP = None \<and> localStorage cold CACHE_CUISINES = None
       \<and> localStorage cold (CACHE_PREFIX @ ''Italian'') = None"
proof -
  have st': "st = (localStorage s0)(CACHE_TIMESTAMP \<mapsto> numberToString T,
              CACHE_CUISINES \<mapsto> stringifyStrings J [''Italian''],
              CACHE_PREFIX @ ''Italian'' \<mapsto> stringifyRecipes J [r1, r2])"
    unfolding st by (rule persisted_Italian[OF mem])
  have gT: "getItem st CACHE_TIMESTAMP = Some (numberToString T)"
    and gC: "getItem st CACHE_CUISINES = Some (stringifyStrings J [''Italian''])"
    and gI: "getItem st (CACHE_PREFIX @ ''Italian'') = Some (stringifyRecipes J [r1, r2])"
    using keys_distinct by (auto simp: st' getItem_def)
  have list: "parseStrings J (orDefault (getItem st CACHE_CUISINES) ''[]'') = Some [''Italian'']"
    using pS nS by (simp add: gC orDefault_def)
  have fresh: "now - T < CACHE_EXPIRY \<Longrightarrow>
      newRecipeCache J now st = Inr \<lparr>inMemoryCache = [(''Italian'', [r1, r2])], localStorage = st\<rparr>"
    using list pR nR
    by (simp add: newRecipeCache_def loadFromLocalStorage_def loadTry_def gT gI
          cacheIsValid_numberToString obj_set_Italian)
  have cc: "\<And>m. clearCache J \<lparr>inMemoryCache = m, localStorage = st\<rparr> = Inr cold"
    using list keys_distinct
    by (simp add: clearCache_listed cold removeItem_def fun_upd_twist)
  have stale: "CACHE_EXPIRY \<le> now - T \<Longrightarrow> newRecipeCache J now st = Inr cold"
    by (simp add: newRecipeCache_def loadFromLocalStorage_def loadTry_def gT
          cacheIsValid_numberToString cc)
  have nots: "(case ts of None \<Rightarrow> True | Some t \<Rightarrow> parseInt t = None) \<Longrightarrow>
            newRecipeCache J now (st(CACHE_TIMESTAMP := ts)) = Inr cold"
  proof -
    assume a: "case ts of None \<Rightarrow> True | Some t \<Rightarrow> parseInt t = None"
    have inv: "\<not> cacheIsValid now (getItem (st(CACHE_TIMESTAMP := ts)) CACHE_TIMESTAMP)"
      using a by (simp add: getItem_def cacheIsValid_def split: option.splits)
    have list': "parseStrings J (orDefault (getItem (st(CACHE_TIMESTAMP := ts)) CACHE_CUISINES) ''[]'')
                   = Some [''Italian'']"
      using list keys_distinct by (simp add: getItem_def)
    have "clearCache J \<lparr>inMemoryCache = [], localStorage = st(CACHE_TIMESTAMP := ts)\<rparr> = Inr cold"
      using list' keys_distinct
      by (simp add: clearCache_listed cold removeItem_def fun_upd_twist)
    with inv show ?thesis
      by (simp add: newRecipeCache_def loadFromLocalStorage_def loadTry_def)
  qed
  show ?thesis
    using fresh stale nots keys_distinct
    by (simp add: getAllRecipes_def cold)
qed

section \<open>Retrieval through the cache\<close>

text \<open>
  Claim C5. If the mock data of the cuisine \<open>C\<close> is not empty then, after a first
  call \<open>getRecipes(C)\<close> (forcing a refresh or not), a second call without refresh
  returns the same sequence, makes no call to \<open>getMockRecipesForCuisine\<close> and leaves
  the state as it is; for a non-empty name \<open>C\<close> the cuisine is cached after the first
  call and the second result is the cached sequence.
\<close>

theorem getRecipes_cache_hit:
  assumes "getMock C \<noteq> []"
  shows "(let (r1, f1, s1) = getRecipes getMock J now1 (Some C) force s;
              (r2, f2, s2) = getRecipes getMock J now2 (Some C) False s1
          in r2 = r1 \<and> f2 = [] \<and> s2 = s1
             \<and> (if C = [] then r2 = getAllRecipes s1
                 else hasCuisine s1 C \<and> r2 = getRecipesForCuisine s1 C))"
proof (cases "C = []")
  case True
  then show ?thesis by (simp add: getRecipes_def)
next
  case False
  show ?thesis
  proof (cases "hasCuisine s C \<and> \<not> force")
    case True
    with False show ?thesis by (simp add: getRecipes_def)
  next
    case miss: False
    have h: "hasCuisine (addRecipes J now1 C (getMock C) s) C"
      using assms by (simp add: hasCuisine_addRecipes_same)
    have g: "getRecipesForCuisine (addRecipes J now1 C (getMock C) s) C = getMock C"
      by (simp add: getRecipesForCuisine_def inMemoryCache_addRecipes map_of_obj_set)
    from False miss assms h g show ?thesis
      by (simp add: getRecipes_def Let_def)
  qed
qed


section \<open>Initialising the cache\<close>

lemma addMockEntries_NotAnArray:
  "addMockEntries J now ((c, NotAnArray) # rest) s =
     (let (l, s') = addMockEntries J now rest s
      in ((if hasCuisine s c then AlreadyInCache c else SkippingNotArray c) # l, s'))"
  by (simp add: Let_def split: prod.splits)

lemma snd_addMockEntries_Cons:
  "snd (addMockEntries J now ((c, v) # rest) s) =
     snd (addMockEntries J now rest
            (if hasCuisine s c then s
             else (case v of RecipeArray rs \<Rightarrow> addRecipes J now c rs s | NotAnArray \<Rightarrow> s)))"
  by (simp add: Let_def split: prod.splits mock_value.splits)

lemma addMockEntries_skip_state:
  "snd (addMockEntries J now entries s)
     = snd (addMockEntries J now (filter (\<lambda>e. snd e \<noteq> NotAnArray) entries) s)"
proof (induction entries arbitrary: s)
  case Nil
  then show ?case by simp
next
  case (Cons e rest)
  obtain c v where e: "e = (c, v)" by (cases e)
  show ?case
    unfolding e using Cons
    by (cases v) (simp_all add: snd_addMockEntries_Cons del: addMockEntries.simps)
qed


text \<open>
  Claim C8. \<open>initializeCache\<close> returns a flag and throws nothing: the flag is false
  exactly when \<open>getAllMockRecipes\<close> throws, an exception of the \<open>try\<close> block gives
  the result false, and an entry whose value is not an array is skipped, with a
  line on the console: it is not added, it raises no error, and the state after the
  loop is the state the loop reaches without such entries.
\<close>

theorem initializeCache_never_throws:
  "fst (initializeCache g J now cs s) = (case g of Inl e \<Rightarrow> False | Inr entries \<Rightarrow> True)
   \<and> (initializeCacheTry g J now cs s = Inl (e, s') \<longrightarrow> initializeCache g J now cs s = (False, [], s'))
   \<and> (g = Inl e \<longrightarrow> initializeCache g J now cs s = (False, [], s))
   \<and> addMockEntries J now ((c, NotAnArray) # rest) s =
       (let (l, s') = addMockEntries J now rest s
        in ((if hasCuisine s c then AlreadyInCache c else SkippingNotArray c) # l, s'))
   \<and> snd (addMockEntries J now entries s)
       = snd (addMockEntries J now (filter (\<lambda>e. snd e \<noteq> NotAnArray) entries) s)"
proof -
  have 1: "fst (initializeCache g J now cs s) = (case g of Inl e \<Rightarrow> False | Inr entries \<Rightarrow> True)"
    by (cases g) (simp_all add: initializeCache_def initializeCacheTry_def Let_def split: prod.splits)
  have 2: "initializeCacheTry g J now cs s = Inl (e, s') \<longrightarrow> initializeCache g J now cs s = (False, [], s')"
    by (simp add: initializeCache_def)
  have 3: "g = Inl e \<longrightarrow> initializeCache g J now cs s = (False, [], s)"
    by (simp add: initializeCache_def initializeCacheTry_def)
  show ?thesis using 1 2 3 addMockEntries_NotAnArray[of J now c rest s] addMockEntries_skip_state[of J now entries s]
    by blast
qed









section \<open>Clearing the cache\<close>

lemma two_adds_mem:
  "inMemoryCache (addRecipes J t2 ''cuisines'' [] (addRecipes J t1 ''Italian'' R emptyState))
     = [(''Italian'', R), (''cuisines'', [])]"
  by (simp add: inMemoryCache_addRecipes emptyState_def obj_set_def obj_insert_def isArrayIndex_def
        isRadixDigit_def digitValue_def)

text \<open>
  With cuisine names other than \<open>cuisines\<close> and \<open>timestamp\<close>, every reachable state
  is consistent, and \<open>clearCache\<close> on it returns with an empty memory and a storage
  that holds no key under the prefix: no entry of a cuisine, no list of cuisines and
  no timestamp. The hypotheses on JSON are that a list of names parses back from its
  text, that no text written is empty, and that \<open>[]\<close> parses to the empty list.
\<close>

lemma keys_obj_set: "fst ` set (obj_set k v m) = insert k (fst ` set m)"
proof -
  have "dom (map_of (obj_set k v m)) = insert k (dom (map_of m))"
    by (simp add: map_of_obj_set)
  then show ?thesis by (simp add: dom_map_of_conv_image_fst)
qed

lemma foldl_setItem_prefix:
  "foldl (\<lambda>st c. setItem (CACHE_PREFIX @ c) (g c) st) st ks (CACHE_PREFIX @ x)
     = (if x \<in> set ks then Some (g x) else st (CACHE_PREFIX @ x))"
  by (induction ks arbitrary: st rule: rev_induct) (auto simp: setItem_def)

lemma foldl_removeItem_prefix:
  "foldl (\<lambda>st c. removeItem (CACHE_PREFIX @ c) st) st cs (CACHE_PREFIX @ x)
     = (if x \<in> set cs then None else st (CACHE_PREFIX @ x))"
  by (induction cs arbitrary: st rule: rev_induct) (auto simp: removeItem_def)

lemma reserved_keys:
  "(CACHE_PREFIX @ x = CACHE_CUISINES) = (x = ''cuisines'')"
  "(CACHE_PREFIX @ x = CACHE_TIMESTAMP) = (x = ''timestamp'')"
  "(CACHE_CUISINES = CACHE_PREFIX @ x) = (x = ''cuisines'')"
  "(CACHE_TIMESTAMP = CACHE_PREFIX @ x) = (x = ''timestamp'')"
  by (auto simp: CACHE_CUISINES_def CACHE_TIMESTAMP_def)

lemma saved_storage_prefix:
  "localStorage (saveToLocalStorage J now s) (CACHE_PREFIX @ x) =
     (if x \<in> fst ` set (inMemoryCache s)
      then Some (case map_of (inMemoryCache s) x of Some rs \<Rightarrow> stringifyRecipes J rs
                 | None \<Rightarrow> ''undefined'')
      else if x = ''cuisines'' then Some (stringifyStrings J (map fst (inMemoryCache s)))
      else if x = ''timestamp'' then Some (numberToString now)
      else localStorage s (CACHE_PREFIX @ x))"
proof -
  have "localStorage (saveToLocalStorage J now s) (CACHE_PREFIX @ x) =
          foldl (\<lambda>st c. setItem (CACHE_PREFIX @ c)
                   (case map_of (inMemoryCache s) c of Some rs \<Rightarrow> stringifyRecipes J rs
                    | None \<Rightarrow> ''undefined'') st)
            (setItem CACHE_CUISINES (stringifyStrings J (map fst (inMemoryCache s)))
               (setItem CACHE_TIMESTAMP (numberToString now) (localStorage s)))
            (map fst (inMemoryCache s)) (CACHE_PREFIX @ x)"
    by (simp add: saveToLocalStorage_def Let_def)
  also have "\<dots> = (if x \<in> fst ` set (inMemoryCache s)
      then Some (case map_of (inMemoryCache s) x of Some rs \<Rightarrow> stringifyRecipes J rs
                 | None \<Rightarrow> ''undefined'')
      else if x = ''cuisines'' then Some (stringifyStrings J (map fst (inMemoryCache s)))
      else if x = ''timestamp'' then Some (numberToString now)
      else localStorage s (CACHE_PREFIX @ x))"
    unfolding foldl_setItem_prefix by (simp add: setItem_def reserved_keys)
  finally show ?thesis .
qed

lemma saved_storage_list:
  assumes "''cuisines'' \<notin> fst ` set (inMemoryCache s)"
  shows "getItem (localStorage (saveToLocalStorage J now s)) CACHE_CUISINES
          = Some (stringifyStrings J (map fst (inMemoryCache s)))"
  using saved_storage_prefix[of J now s "''cuisines''"] assms
  by (simp add: getItem_def CACHE_CUISINES_def)

lemma consistent_addRecipes:
  assumes laws: "\<And>cs. parseStrings J (stringifyStrings J cs) = Some cs"
      "\<And>cs. stringifyStrings J cs \<noteq> []" "\<And>rs. stringifyRecipes J rs \<noteq> []"
    and c: "consistent J s" and r: "cuisine \<noteq> ''cuisines''" "cuisine \<noteq> ''timestamp''"
  shows "consistent J (addRecipes J now cuisine recipes s)"
proof -
  let ?m = "obj_set cuisine recipes (inMemoryCache s)"
  let ?s1 = "s\<lparr>inMemoryCache := ?m\<rparr>"
  have keys: "fst ` set ?m = insert cuisine (fst ` set (inMemoryCache s))" by (rule keys_obj_set)
  from c have res: "''cuisines'' \<notin> fst ` set ?m" "''timestamp'' \<notin> fst ` set ?m"
    using r by (auto simp: consistent_def keys)
  have list: "parseStrings J (orDefault (getItem (localStorage (saveToLocalStorage J now ?s1))
                  CACHE_CUISINES) ''[]'') = Some (map fst ?m)"
    using saved_storage_list[of ?s1 J now] res laws by (simp add: orDefault_def)
  have ent: "\<And>x. localStorage (saveToLocalStorage J now ?s1) (CACHE_PREFIX @ x) \<noteq> None \<Longrightarrow>
                x = ''cuisines'' \<or> x = ''timestamp''
                \<or> (x \<in> set (map fst ?m) \<and> x \<in> fst ` set ?m
                    \<and> localStorage (saveToLocalStorage J now ?s1) (CACHE_PREFIX @ x) \<noteq> Some [])"
  proof -
    fix x assume a: "localStorage (saveToLocalStorage J now ?s1) (CACHE_PREFIX @ x) \<noteq> None"
    show "x = ''cuisines'' \<or> x = ''timestamp''
                \<or> (x \<in> set (map fst ?m) \<and> x \<in> fst ` set ?m
                    \<and> localStorage (saveToLocalStorage J now ?s1) (CACHE_PREFIX @ x) \<noteq> Some [])"
    proof (cases "x \<in> fst ` set ?m")
      case True
      then obtain rs where "map_of ?m x = Some rs"
        by (metis domD dom_map_of_conv_image_fst)
      with True laws(3) show ?thesis by (simp add: saved_storage_prefix)
    next
      case False
      with a have "x = ''cuisines'' \<or> x = ''timestamp'' \<or> localStorage s (CACHE_PREFIX @ x) \<noteq> None"
        by (simp add: saved_storage_prefix split: if_splits)
      with c False keys show ?thesis by (auto simp: consistent_def)
    qed
  qed
  show ?thesis
    unfolding consistent_def addRecipes_def
    using res list ent by (auto simp: inMemoryCache_saveToLocalStorage)
qed

lemma clearCache_clears:
  assumes e: "parseStrings J ''[]'' = Some []"
    and cs: "parseStrings J (orDefault (getItem (localStorage s) CACHE_CUISINES) ''[]'') = Some cs"
      "\<And>x. localStorage s (CACHE_PREFIX @ x) \<noteq> None \<Longrightarrow>
                      x = ''cuisines'' \<or> x = ''timestamp'' \<or> x \<in> set cs"
  shows "\<exists>s'. clearCache J s = Inr s' \<and> inMemoryCache s' = []
           \<and> (\<forall>x. localStorage s' (CACHE_PREFIX @ x) = None) \<and> consistent J s'"
proof -
  let ?st = "removeItem CACHE_TIMESTAMP (removeItem CACHE_CUISINES
                    (foldl (\<lambda>st c. removeItem (CACHE_PREFIX @ c) st) (localStorage s) cs))"
  have cl: "clearCache J s = Inr \<lparr>inMemoryCache = [], localStorage = ?st\<rparr>"
    by (rule clearCache_listed[OF cs(1)])
  have none: "\<And>x. ?st (CACHE_PREFIX @ x) = None"
  proof -
    fix x
    have "foldl (\<lambda>st c. removeItem (CACHE_PREFIX @ c) st) (localStorage s) cs (CACHE_PREFIX @ x)
            = None \<or> x = ''cuisines'' \<or> x = ''timestamp''"
      unfolding foldl_removeItem_prefix using cs(2)[of x] by auto
    then show "?st (CACHE_PREFIX @ x) = None"
      by (auto simp: removeItem_def[of CACHE_TIMESTAMP] removeItem_def[of CACHE_CUISINES]
            reserved_keys)
  qed
  have "?st CACHE_CUISINES = None" by (simp add: removeItem_def)
  with e none have "consistent J \<lparr>inMemoryCache = [], localStorage = ?st\<rparr>"
    by (simp add: consistent_def getItem_def orDefault_def)
  with cl none show ?thesis by simp
qed

lemma consistent_listed:
  assumes "consistent J s"
  shows "\<exists>cs. parseStrings J (orDefault (getItem (localStorage s) CACHE_CUISINES) ''[]'') = Some cs
    \<and> ''cuisines'' \<notin> set cs \<and> ''timestamp'' \<notin> set cs
    \<and> (\<forall>x. localStorage s (CACHE_PREFIX @ x) \<noteq> None \<longrightarrow>
        x = ''cuisines'' \<or> x = ''timestamp''
        \<or> (x \<in> set cs \<and> localStorage s (CACHE_PREFIX @ x) \<noteq> Some []))"
proof -
  from assms obtain cs where
    1: "parseStrings J (orDefault (getItem (localStorage s) CACHE_CUISINES) ''[]'') = Some cs"
    and 2: "''cuisines'' \<notin> set cs" "''timestamp'' \<notin> set cs"
    and 3: "\<forall>x. localStorage s (CACHE_PREFIX @ x) \<noteq> None \<longrightarrow>
                      x = ''cuisines'' \<or> x = ''timestamp''
                      \<or> (x \<in> set cs \<and> x \<in> fst ` set (inMemoryCache s)
                          \<and> localStorage s (CACHE_PREFIX @ x) \<noteq> Some [])"
    unfolding consistent_def by blast
  from 3 have "\<forall>x. localStorage s (CACHE_PREFIX @ x) \<noteq> None \<longrightarrow>
        x = ''cuisines'' \<or> x = ''timestamp''
        \<or> (x \<in> set cs \<and> localStorage s (CACHE_PREFIX @ x) \<noteq> Some [])" by blast
  with 1 2 show ?thesis by blast
qed

lemma loadCuisines_result:
  "loadCuisines J cs s = Inr s' \<Longrightarrow>
     localStorage s' = localStorage s
     \<and> fst ` set (inMemoryCache s') =
         fst ` set (inMemoryCache s)
         \<union> {c \<in> set cs. orDefault (getItem (localStorage s) (CACHE_PREFIX @ c)) [] \<noteq> []}"
proof (induction cs arbitrary: s)
  case Nil
  then show ?case by simp
next
  case (Cons c cs)
  show ?case
  proof (cases "orDefault (getItem (localStorage s) (CACHE_PREFIX @ c)) [] = []")
    case True
    then have "loadCuisines J (c # cs) s = loadCuisines J cs s"
      by (auto simp: orDefault_def split: option.splits if_splits)
    with Cons True show ?thesis by auto
  next
    case False
    then obtain t where t: "getItem (localStorage s) (CACHE_PREFIX @ c) = Some t" "t \<noteq> []"
      by (auto simp: orDefault_def split: option.splits if_splits)
    with Cons.prems obtain rs where rs: "parseRecipes J t = Some rs"
      by (cases "parseRecipes J t") auto
    let ?s1 = "s\<lparr>inMemoryCache := obj_set c rs (inMemoryCache s)\<rparr>"
    from Cons.prems t rs have "loadCuisines J cs ?s1 = Inr s'" by simp
    from Cons.IH[OF this] False show ?thesis by (auto simp: keys_obj_set)
  qed
qed

lemma loadCuisines_error_storage:
  "loadCuisines J cs s = Inl (e, s') \<Longrightarrow> localStorage s' = localStorage s"
proof (induction cs arbitrary: s)
  case Nil
  then show ?case by simp
next
  case (Cons c cs)
  show ?case
  proof (cases "getItem (localStorage s) (CACHE_PREFIX @ c)")
    case None
    with Cons show ?thesis by simp
  next
    case (Some t)
    show ?thesis
    proof (cases "t = []")
      case True
      with Some Cons show ?thesis by simp
    next
      case False
      show ?thesis
      proof (cases "parseRecipes J t")
        case None
        with Some False Cons.prems show ?thesis by simp
      next
        case (Some rs)
        with \<open>getItem (localStorage s) (CACHE_PREFIX @ c) = Some t\<close> False Cons.prems
        have "loadCuisines J cs (s\<lparr>inMemoryCache := obj_set c rs (inMemoryCache s)\<rparr>) = Inl (e, s')"
          by simp
        from Cons.IH[OF this] show ?thesis by simp
      qed
    qed
  qed
qed

lemma consistent_newRecipeCache:
  assumes e: "parseStrings J ''[]'' = Some []" and c: "consistent J s"
    and n: "newRecipeCache J now (localStorage s) = Inr s'"
  shows "consistent J s'"
proof -
  let ?s0 = "\<lparr>inMemoryCache = [], localStorage = localStorage s\<rparr>"
  from consistent_listed[OF c] obtain cs where cs:
    "parseStrings J (orDefault (getItem (localStorage s) CACHE_CUISINES) ''[]'') = Some cs"
    "''cuisines'' \<notin> set cs" "''timestamp'' \<notin> set cs"
    and stored: "\<forall>x. localStorage s (CACHE_PREFIX @ x) \<noteq> None \<longrightarrow>
        x = ''cuisines'' \<or> x = ''timestamp''
        \<or> (x \<in> set cs \<and> localStorage s (CACHE_PREFIX @ x) \<noteq> Some [])"
    by blast
  have clears: "consistent J s'" if s1: "localStorage s1 = localStorage s"
    and cl: "clearCache J s1 = Inr s'" for s1
  proof -
    have p: "parseStrings J (orDefault (getItem (localStorage s1) CACHE_CUISINES) ''[]'') = Some cs"
      using cs(1) s1 by simp
    have q: "\<And>x. localStorage s1 (CACHE_PREFIX @ x) \<noteq> None \<Longrightarrow>
                      x = ''cuisines'' \<or> x = ''timestamp'' \<or> x \<in> set cs"
      using stored s1 by auto
    from clearCache_clears[OF e p q] cl show "consistent J s'" by auto
  qed
  show ?thesis
  proof (cases "cacheIsValid now (getItem (localStorage s) CACHE_TIMESTAMP)")
    case False
    then have "loadTry J now ?s0 = clearCache J ?s0" by (simp add: loadTry_def)
    with n have "clearCache J ?s0 = Inr s'"
      by (cases "clearCache J ?s0")
         (auto simp: newRecipeCache_def loadFromLocalStorage_def clearCache_def Let_def
            split: option.splits)
    then show ?thesis using clears[of ?s0] by simp
  next
    case True
    then have lt: "loadTry J now ?s0 = loadCuisines J cs ?s0"
      using cs(1) by (simp add: loadTry_def)
    show ?thesis
    proof (cases "loadCuisines J cs ?s0")
      case (Inl p)
      obtain err s1 where p: "p = (err, s1)" by (cases p)
      from Inl p have "localStorage s1 = localStorage ?s0"
        by (intro loadCuisines_error_storage[of J cs ?s0 err s1]) simp
      then have a: "localStorage s1 = localStorage s" by simp
      from n lt Inl p have b: "clearCache J s1 = Inr s'"
        by (simp add: newRecipeCache_def loadFromLocalStorage_def)
      from a b show ?thesis by (rule clears)
    next
      case (Inr s1)
      with n lt have s1: "s1 = s'" by (simp add: newRecipeCache_def loadFromLocalStorage_def)
      from loadCuisines_result[OF Inr] have r: "localStorage s' = localStorage s"
        "fst ` set (inMemoryCache s') =
           {c \<in> set cs. orDefault (getItem (localStorage s) (CACHE_PREFIX @ c)) [] \<noteq> []}"
        unfolding s1 by simp_all
      have mem: "x \<in> fst ` set (inMemoryCache s')"
        if "x \<in> set cs" "localStorage s (CACHE_PREFIX @ x) \<noteq> None"
           "localStorage s (CACHE_PREFIX @ x) \<noteq> Some []" for x
        using that unfolding r(2) by (auto simp: orDefault_def getItem_def)
      have res: "''cuisines'' \<notin> fst ` set (inMemoryCache s')"
           "''timestamp'' \<notin> fst ` set (inMemoryCache s')"
        unfolding r(2) using cs(2,3) by auto
      have ent: "\<forall>x. localStorage s' (CACHE_PREFIX @ x) \<noteq> None \<longrightarrow>
                      x = ''cuisines'' \<or> x = ''timestamp''
                      \<or> (x \<in> set cs \<and> x \<in> fst ` set (inMemoryCache s')
                          \<and> localStorage s' (CACHE_PREFIX @ x) \<noteq> Some [])"
        unfolding r(1) using stored mem by blast
      have lst: "parseStrings J (orDefault (getItem (localStorage s') CACHE_CUISINES) ''[]'') = Some cs"
        unfolding r(1) by (rule cs(1))
      show ?thesis
        unfolding consistent_def using res lst cs(2,3) ent by blast
    qed
  qed
qed

lemma clearCache_consistent:
  assumes e: "parseStrings J ''[]'' = Some []" and c: "consistent J s"
  shows "\<exists>s'. clearCache J s = Inr s' \<and> inMemoryCache s' = []
           \<and> (\<forall>x. localStorage s' (CACHE_PREFIX @ x) = None) \<and> consistent J s'"
proof -
  from consistent_listed[OF c] obtain cs where
    p: "parseStrings J (orDefault (getItem (localStorage s) CACHE_CUISINES) ''[]'') = Some cs"
    and stored: "\<forall>x. localStorage s (CACHE_PREFIX @ x) \<noteq> None \<longrightarrow>
        x = ''cuisines'' \<or> x = ''timestamp''
        \<or> (x \<in> set cs \<and> localStorage s (CACHE_PREFIX @ x) \<noteq> Some [])"
    by blast
  have q: "\<And>x. localStorage s (CACHE_PREFIX @ x) \<noteq> None \<Longrightarrow>
                      x = ''cuisines'' \<or> x = ''timestamp'' \<or> x \<in> set cs"
    using stored by blast
  show ?thesis by (rule clearCache_clears[OF e p q])
qed

lemma reachable_consistent:
  assumes laws: "\<And>cs. parseStrings J (stringifyStrings J cs) = Some cs"
      "\<And>cs. stringifyStrings J cs \<noteq> []" "\<And>rs. stringifyRecipes J rs \<noteq> []"
      "parseStrings J ''[]'' = Some []"
    and r: "reachable J s"
  shows "consistent J s"
  using r
proof (induction rule: reachable.induct)
  case (first now s)
  have "consistent J \<lparr>inMemoryCache = [], localStorage = Map.empty\<rparr>"
    using laws(4) by (simp add: consistent_def getItem_def orDefault_def)
  from consistent_newRecipeCache[OF laws(4) this, of now s] first show ?case by simp
next
  case (add s cuisine now recipes)
  from consistent_addRecipes[OF laws(1,2,3) add.IH add.hyps(2,3)] show ?case .
next
  case (clear s s')
  from clearCache_consistent[OF laws(4) clear.IH] clear.hyps show ?case by auto
next
  case (again s now s')
  from consistent_newRecipeCache[OF laws(4) again.IH again.hyps(2)] show ?case .
qed

lemma clearCache_unreserved:
  assumes laws: "\<And>cs. parseStrings J (stringifyStrings J cs) = Some cs"
      "\<And>cs. stringifyStrings J cs \<noteq> []" "\<And>rs. stringifyRecipes J rs \<noteq> []"
      "parseStrings J ''[]'' = Some []"
    and r: "reachable J s"
  shows "\<exists>s'. clearCache J s = Inr s' \<and> inMemoryCache s' = [] \<and> getAllRecipes s' = []
           \<and> (\<forall>c. \<not> hasCuisine s' c)
           \<and> (\<forall>x. localStorage s' (CACHE_PREFIX @ x) = None)
           \<and> localStorage s' CACHE_CUISINES = None \<and> localStorage s' CACHE_TIMESTAMP = None"
proof -
  have "consistent J s" by (rule reachable_consistent[OF laws r])
  from clearCache_consistent[OF laws(4) this] obtain s' where s': "clearCache J s = Inr s'" "inMemoryCache s' = []"
      "\<And>x. localStorage s' (CACHE_PREFIX @ x) = None" by blast
  from s'(3)[of "''cuisines''"] s'(3)[of "''timestamp''"]
  have "localStorage s' CACHE_CUISINES = None" "localStorage s' CACHE_TIMESTAMP = None"
    by (simp_all add: CACHE_CUISINES_def CACHE_TIMESTAMP_def)
  with s' show ?thesis by (simp add: getAllRecipes_def hasCuisine_def)
qed

text \<open>
  Claim C9 does not hold of the code for every reachable state. The key of the list
  of cuisines is the prefix followed by \<open>cuisines\<close>, which is also the key of the
  entry of a cuisine named \<open>cuisines\<close>. From the empty store, after
  \<open>addRecipes("Italian", R)\<close> and \<open>addRecipes("cuisines", [])\<close> the persisted list is
  overwritten by the text \<open>[]\<close> of the empty sequence, and \<open>clearCache\<close> then removes
  no entry: the entry of \<open>Italian\<close> stays in the storage, although the cuisine was
  cached and the memory is emptied. The empty state is the one the constructor
  leaves over an empty storage. The hypotheses say that \<open>[]\<close> is the JSON text of the
  empty array.
\<close>

theorem clearCache_leaves_entry:
  assumes "stringifyRecipes J [] = ''[]''" "parseStrings J ''[]'' = Some []"
  shows "newRecipeCache J t0 Map.empty = Inr emptyState
       \<and> hasCuisine (addRecipes J t2 ''cuisines'' [] (addRecipes J t1 ''Italian'' R emptyState))
            ''Italian'' = (R \<noteq> [])
       \<and> clearCache J (addRecipes J t2 ''cuisines'' [] (addRecipes J t1 ''Italian'' R emptyState))
          = Inr \<lparr>inMemoryCache = [],
                 localStorage = [CACHE_PREFIX @ ''Italian'' \<mapsto> stringifyRecipes J R]\<rparr>"
proof -
  let ?s2 = "addRecipes J t2 ''cuisines'' [] (addRecipes J t1 ''Italian'' R emptyState)"
  have new: "newRecipeCache J t0 Map.empty = Inr emptyState"
    using assms(2)
    by (simp add: newRecipeCache_def loadFromLocalStorage_def loadTry_def cacheIsValid_def
          clearCache_def getItem_def orDefault_def removeItem_def emptyState_def)
  have cached: "hasCuisine ?s2 ''Italian'' = (R \<noteq> [])"
    by (simp add: hasCuisine_def two_adds_mem)
  have st: "localStorage ?s2 =
      [CACHE_TIMESTAMP \<mapsto> numberToString t2, CACHE_PREFIX @ ''Italian'' \<mapsto>  stringifyRecipes J R,
       CACHE_CUISINES \<mapsto> ''[]'']"
    using assms(1) collide
    by (auto simp: addRecipes_def saveToLocalStorage_def Let_def setItem_def emptyState_def
        obj_set_def obj_insert_def isArrayIndex_def isRadixDigit_def digitValue_def fun_eq_iff)
  have "parseStrings J (orDefault (getItem (localStorage ?s2) CACHE_CUISINES) ''[]'') = Some []"
    using assms(2) by (simp add: st getItem_def orDefault_def)
  from clearCache_listed[OF this]
  have "clearCache J ?s2
          = Inr \<lparr>inMemoryCache = [],
                 localStorage = [CACHE_PREFIX @ ''Italian'' \<mapsto> stringifyRecipes J R]\<rparr>"
    using collide by (auto simp: st removeItem_def fun_eq_iff)
  with new cached show ?thesis by blast
qed

section \<open>Worked examples\<close>

text \<open>
  Each theorem above that has a hypothesis is applied here to the example data, with
  its hypotheses evaluated.
\<close>

lemmas demo_eval =
  demoJSON_def demoStringTexts_def demoRecipeTexts_def quoted_def
  getItem_def setItem_def removeItem_def orDefault_def
  CACHE_TIMESTAMP_def CACHE_CUISINES_def CACHE_PREFIX_def CACHE_EXPIRY_def

theorem load_failure_clears_store_witness:
  "cacheIsValid 2000 (getItem brokenStorage CACHE_TIMESTAMP)
   \<and> parseStrings demoJSON (orDefault (getItem brokenStorage CACHE_CUISINES) ''[]'')
       = Some [''Italian'', ''Mexican'']
   \<and> ''Mexican'' \<in> set [''Italian'', ''Mexican'']
   \<and> getItem brokenStorage (CACHE_PREFIX @ ''Mexican'') = Some (''[{'' @ quoted ''id'' @ '':'')
   \<and> ''[{'' @ quoted ''id'' @ '':'' \<noteq> []
   \<and> parseRecipes demoJSON (''[{'' @ quoted ''id'' @ '':'') = None
   \<and> newRecipeCache demoJSON 2000 brokenStorage =
        Inr \<lparr>inMemoryCache = [],
             localStorage =
               removeItem CACHE_TIMESTAMP (removeItem CACHE_CUISINES
                 (foldl (\<lambda>st c. removeItem (CACHE_PREFIX @ c) st) brokenStorage
                    [''Italian'', ''Mexican'']))\<rparr>
   \<and> loadCuisines demoJSON [''Italian'', ''Mexican'']
        \<lparr>inMemoryCache = [], localStorage = brokenStorage(CACHE_PREFIX @ ''Mexican'' := None)\<rparr>
       = loadCuisines demoJSON [''Italian'']
        \<lparr>inMemoryCache = [], localStorage = brokenStorage(CACHE_PREFIX @ ''Mexican'' := None)\<rparr>"
proof -
  have 1: "cacheIsValid 2000 (getItem brokenStorage CACHE_TIMESTAMP)"
    by (simp add: brokenStorage_def cacheIsValid_def demo_eval parseInt_def Let_def
          isStrWhiteSpaceChar_def isRadixDigit_def digitValue_def digitsValue_def)
  have 2: "parseStrings demoJSON (orDefault (getItem brokenStorage CACHE_CUISINES) ''[]'')
       = Some [''Italian'', ''Mexican'']"
    by (simp add: brokenStorage_def demo_eval)
  have 3: "''Mexican'' \<in> set [''Italian'', ''Mexican'']" by simp
  have 4: "getItem brokenStorage (CACHE_PREFIX @ ''Mexican'') = Some (''[{'' @ quoted ''id'' @ '':'')"
    by (simp add: brokenStorage_def demo_eval)
  have 5: "''[{'' @ quoted ''id'' @ '':'' \<noteq> []" by simp
  have 6: "parseRecipes demoJSON (''[{'' @ quoted ''id'' @ '':'') = None"
    by (simp add: demo_eval)
  have f: "filter (\<lambda>c. orDefault (getItem (localStorage
               \<lparr>inMemoryCache = [], localStorage = brokenStorage(CACHE_PREFIX @ ''Mexican'' := None)\<rparr>)
               (CACHE_PREFIX @ c)) [] \<noteq> []) [''Italian'', ''Mexican''] = [''Italian'']"
    by (simp add: brokenStorage_def demo_eval)
  note T = load_failure_clears_store[of demoJSON "[''Italian'', ''Mexican'']"
      "\<lparr>inMemoryCache = [], localStorage = brokenStorage(CACHE_PREFIX @ ''Mexican'' := None)\<rparr>"
      2000 brokenStorage "[''Italian'', ''Mexican'']" "''Mexican''" "''[{'' @ quoted ''id'' @ '':''"]
  from T 1 2 3 4 5 6 have 7: "newRecipeCache demoJSON 2000 brokenStorage =
        Inr \<lparr>inMemoryCache = [],
             localStorage =
               removeItem CACHE_TIMESTAMP (removeItem CACHE_CUISINES
                 (foldl (\<lambda>st c. removeItem (CACHE_PREFIX @ c) st) brokenStorage
                    [''Italian'', ''Mexican'']))\<rparr>" by blast
  from T have 8: "loadCuisines demoJSON [''Italian'', ''Mexican'']
        \<lparr>inMemoryCache = [], localStorage = brokenStorage(CACHE_PREFIX @ ''Mexican'' := None)\<rparr>
       = loadCuisines demoJSON [''Italian'']
        \<lparr>inMemoryCache = [], localStorage = brokenStorage(CACHE_PREFIX @ ''Mexican'' := None)\<rparr>"
    unfolding f by blast
  from 1 2 3 4 5 6 7 8 show ?thesis by blast
qed

theorem persistence_round_trip_witness:
  "inMemoryCache demoStore = [(''Italian'', [pizza, paella])]
   \<and> parseStrings demoJSON (stringifyStrings demoJSON [''Italian'']) = Some [''Italian'']
   \<and> stringifyStrings demoJSON [''Italian''] \<noteq> []
   \<and> parseRecipes demoJSON (stringifyRecipes demoJSON [pizza, paella]) = Some [pizza, paella]
   \<and> stringifyRecipes demoJSON [pizza, paella] \<noteq> []
   \<and> (1000 + 60 * 60 * 1000) - 1000 < CACHE_EXPIRY
   \<and> newRecipeCache demoJSON (1000 + 60 * 60 * 1000)
        (localStorage (saveToLocalStorage demoJSON 1000 demoStore))
       = Inr \<lparr>inMemoryCache = [(''Italian'', [pizza, paella])],
              localStorage = localStorage (saveToLocalStorage demoJSON 1000 demoStore)\<rparr>
   \<and> getAllRecipes \<lparr>inMemoryCache = [(''Italian'', [pizza, paella])],
              localStorage = localStorage (saveToLocalStorage demoJSON 1000 demoStore)\<rparr>
       = [pizza, paella]
   \<and> CACHE_EXPIRY \<le> (1000 + 25 * 60 * 60 * 1000) - 1000
   \<and> newRecipeCache demoJSON (1000 + 25 * 60 * 60 * 1000)
        (localStorage (saveToLocalStorage demoJSON 1000 demoStore))
       = Inr \<lparr>inMemoryCache = [],
              localStorage = (localStorage (saveToLocalStorage demoJSON 1000 demoStore))
                (CACHE_PREFIX @ ''Italian'' := None, CACHE_CUISINES := None,
                 CACHE_TIMESTAMP := None)\<rparr>
   \<and> parseInt ''yesterday'' = None
   \<and> newRecipeCache demoJSON (1000 + 60 * 60 * 1000)
        ((localStorage (saveToLocalStorage demoJSON 1000 demoStore))
           (CACHE_TIMESTAMP := Some ''yesterday''))
       = Inr \<lparr>inMemoryCache = [],
              localStorage = (localStorage (saveToLocalStorage demoJSON 1000 demoStore))
                (CACHE_PREFIX @ ''Italian'' := None, CACHE_CUISINES := None,
                 CACHE_TIMESTAMP := None)\<rparr>"
proof -
  have 1: "inMemoryCache demoStore = [(''Italian'', [pizza, paella])]"
    by (simp add: demoStore_def)
  have 2: "parseStrings demoJSON (stringifyStrings demoJSON [''Italian'']) = Some [''Italian'']"
    and 3: "stringifyStrings demoJSON [''Italian''] \<noteq> []"
    by (simp_all add: demo_eval)
  have 4: "parseRecipes demoJSON (stringifyRecipes demoJSON [pizza, paella]) = Some [pizza, paella]"
    and 5: "stringifyRecipes demoJSON [pizza, paella] \<noteq> []"
    by (simp_all add: demo_eval pizza_def tacos_def paella_def)
  have 6: "(1000 + 60 * 60 * 1000) - 1000 < CACHE_EXPIRY"
    and 7: "CACHE_EXPIRY \<le> (1000 + 25 * 60 * 60 * 1000) - 1000"
    by (simp_all add: CACHE_EXPIRY_def)
  have 8: "parseInt ''yesterday'' = None"
    by (simp add: parseInt_def Let_def isStrWhiteSpaceChar_def isRadixDigit_def digitValue_def)
  note T = persistence_round_trip[OF 1 2 3 4 5 refl refl]
  from T[of "1000 + 60 * 60 * 1000" 1000 "Some ''yesterday''"] 6 8
    T[of "1000 + 25 * 60 * 60 * 1000" 1000 None] 7
  show ?thesis
    using 1 2 3 4 5 by simp
qed

theorem getRecipes_cache_hit_witness:
  "demoMock ''Italian'' \<noteq> []
   \<and> (let (r1, f1, s1) = getRecipes demoMock demoJSON 1000 (Some ''Italian'') False emptyState;
           (r2, f2, s2) = getRecipes demoMock demoJSON 2000 (Some ''Italian'') False s1
       in r1 = [pizza] \<and> f1 = [''Italian''] \<and> r2 = [pizza] \<and> f2 = [] \<and> s2 = s1
          \<and> hasCuisine s1 ''Italian'' \<and> r2 = getRecipesForCuisine s1 ''Italian'')"
proof -
  have h: "demoMock ''Italian'' \<noteq> []" by (simp add: demoMock_def)
  have n: "\<not> hasCuisine emptyState ''Italian''" by (simp add: hasCuisine_def emptyState_def)
  have 1: "getRecipes demoMock demoJSON 1000 (Some ''Italian'') False emptyState
             = ([pizza], [''Italian''], addRecipes demoJSON 1000 ''Italian'' [pizza] emptyState)"
    using n by (simp add: getRecipes_def demoMock_def Let_def)
  from getRecipes_cache_hit[of demoMock "''Italian''" demoJSON 1000 False emptyState 2000] h
  show ?thesis
    unfolding 1 by (simp split: prod.splits)
qed


theorem initializeCache_never_throws_witness:
  "initializeCacheTry (Inl (Error ''no mock data'')) demoJSON 1000 [] emptyState
     = Inl (Error ''no mock data'', emptyState)
   \<and> initializeCache (Inl (Error ''no mock data'')) demoJSON 1000 [] emptyState
       = (False, [], emptyState)
   \<and> fst (initializeCache (Inr demoAllMock) demoJSON 1000 [] emptyState)
   \<and> addMockEntries demoJSON 1000 [(''Thai'', NotAnArray)] emptyState
       = ([SkippingNotArray ''Thai''], emptyState)"
proof -
  have 1: "initializeCacheTry (Inl (Error ''no mock data'')) demoJSON 1000 [] emptyState
     = Inl (Error ''no mock data'', emptyState)"
    by (simp add: initializeCacheTry_def)
  have 2: "\<not> hasCuisine emptyState ''Thai''" by (simp add: hasCuisine_def emptyState_def)
  note T = initializeCache_never_throws[of "Inl (Error ''no mock data'')" demoJSON 1000 "[]"
      emptyState "Error ''no mock data''" emptyState "''Thai''" "[]" "[]"]
  note U = initializeCache_never_throws[of "Inr demoAllMock" demoJSON 1000 "[]"
      emptyState "Error ''no mock data''" emptyState "''Thai''" "[]" "[]"]
  from T 1 have 3: "initializeCache (Inl (Error ''no mock data'')) demoJSON 1000 [] emptyState
       = (False, [], emptyState)" by blast
  from U have 4: "fst (initializeCache (Inr demoAllMock) demoJSON 1000 [] emptyState)" by simp
  from T 2 have 5: "addMockEntries demoJSON 1000 [(''Thai'', NotAnArray)] emptyState
       = ([SkippingNotArray ''Thai''], emptyState)" by simp
  from 1 3 4 5 show ?thesis by blast
qed

theorem clearCache_leaves_entry_witness:
  "stringifyRecipes demoJSON [] = ''[]'' \<and> parseStrings demoJSON ''[]'' = Some []
   \<and> newRecipeCache demoJSON 500 Map.empty = Inr emptyState
   \<and> hasCuisine (addRecipes demoJSON 2000 ''cuisines'' []
                   (addRecipes demoJSON 1000 ''Italian'' [pizza] emptyState)) ''Italian''
   \<and> clearCache demoJSON (addRecipes demoJSON 2000 ''cuisines'' []
                   (addRecipes demoJSON 1000 ''Italian'' [pizza] emptyState))
       = Inr \<lparr>inMemoryCache = [],
              localStorage = [CACHE_PREFIX @ ''Italian'' \<mapsto> stringifyRecipes demoJSON [pizza]]\<rparr>
   \<and> [CACHE_PREFIX @ ''Italian'' \<mapsto> stringifyRecipes demoJSON [pizza]]
        (CACHE_PREFIX @ ''Italian'') \<noteq> None"
proof -
  have 1: "stringifyRecipes demoJSON [] = ''[]''" and 2: "parseStrings demoJSON ''[]'' = Some []"
    by (simp_all add: demo_eval)
  from clearCache_leaves_entry[OF 1 2, of 500 2000 1000 "[pizza]"] 1 2 show ?thesis by simp
qed


end
